theory Spec2Isabelle
  imports Main "HOL-Library.Word"
begin

unbundle bit_operations_syntax

section \<open>Data model\<close>

text \<open>
  Go's \<open>byte\<close>, \<open>uint16\<close> and \<open>uint32\<close> are words of that width: \<open>+\<close> and \<open>-\<close>
  wrap, \<open>push_bit\<close> is \<open><<\<close>, \<open>drop_bit\<close> is \<open>>>\<close>, \<open>ucast\<close> is a conversion
  between unsigned widths (truncating when it narrows).
\<close>

type_synonym byte = "8 word"
type_synonym uint16 = "16 word"
type_synonym uint32 = "32 word"

text \<open>\<open>type ObjectType uint32\<close> and \<open>type BACnetObject struct\<close>.\<close>

type_synonym ObjectType = uint32

record BACnetObject =
  Type :: ObjectType
  Instance :: uint32

record StatusFlags =
  InAlarm :: bool
  Fault :: bool
  Overridden :: bool
  OutOfService :: bool

text \<open>
  The dynamic values (\<open>interface{}\<close>) that the decoders produce, one constructor per
  dynamic Go type: \<open>nil\<close>, \<open>bool\<close>, \<open>uint32\<close> (Unsigned and Enumerated both return
  a \<open>uint32\<close>), \<open>float32\<close> (kept as the IEEE-754 bit pattern that \<open>binary.Read\<close>
  loads), \<open>string\<close> (its bytes), \<open>StatusFlags\<close>, \<open>BACnetObject\<close>, \<open>[]byte\<close> and
  \<open>[]interface{}\<close>.
\<close>

datatype appvalue =
    VNil
  | VBool bool
  | VUint32 uint32
  | VFloat32 uint32
  | VString "byte list"
  | VStatusFlags StatusFlags
  | VObject BACnetObject
  | VBytes "byte list"
  | VList "appvalue list"

record BACnetPropertyValue =
  PropertyID :: uint32
  Value :: appvalue

record COVNotification =
  SubscriberProcessIdentifier :: uint32
  InitiatingDeviceIdentifier :: BACnetObject
  MonitoredObjectIdentifier :: BACnetObject
  TimeRemaining :: uint32
  ListOfValues :: "BACnetPropertyValue list"

text \<open>\<open>net.UDPAddr\<close>: the IP as its bytes, the port as Go's \<open>int\<close>.\<close>

record UDPAddr =
  IP :: "byte list"
  UDPPort :: int

record DeviceInfo =
  DeviceID :: uint32
  IPAddress :: "byte list"
  Port :: int
  MacAddress :: "byte list"
  MaxAPDU :: uint16

text \<open>
  Errors are values. \<open>EOF\<close> and \<open>ErrUnexpectedEOF\<close> are the two errors of package
  \<open>io\<close>; \<open>Errorf msg None\<close> is \<open>fmt.Errorf(msg, ...)\<close> without a wrapped error (or
  with a nil one), \<open>Errorf msg (Some e)\<close> is \<open>fmt.Errorf(msg + ": %w", e)\<close>. The
  message is the constant text of the format string; the formatted arguments are left
  out.
\<close>

datatype error =
    EOF
  | ErrUnexpectedEOF
  | Errorf string "error option"

text \<open>
  Sequencing of fallible steps: \<open>bindE x f\<close> returns the error of \<open>x\<close> or goes on
  with its value, as \<open>v, err := x; if err != nil { return err }; f(v)\<close> does;
  \<open>wrap msg x\<close> is the same step returning \<open>fmt.Errorf(msg + ": %w", err)\<close>.
\<close>

definition bindE :: "error + 'a \<Rightarrow> ('a \<Rightarrow> error + 'b) \<Rightarrow> error + 'b" where
  "bindE x f = (case x of Inl e \<Rightarrow> Inl e | Inr v \<Rightarrow> f v)"

definition wrap :: "string \<Rightarrow> error + 'a \<Rightarrow> error + 'a" where
  "wrap msg x = (case x of Inl e \<Rightarrow> Inl (Errorf msg (Some e)) | Inr v \<Rightarrow> Inr v)"

section \<open>Constants\<close>

definition BVLC_TYPE_BACNET_IP :: byte where "BVLC_TYPE_BACNET_IP = 0x81"
definition BVLC_ORIGINAL_UNICAST_NPDU :: byte where "BVLC_ORIGINAL_UNICAST_NPDU = 0x0a"
definition BVLC_ORIGINAL_BROADCAST_NPDU :: byte where "BVLC_ORIGINAL_BROADCAST_NPDU = 0x0b"
definition NPDU_CONTROL_NORMAL_MESSAGE :: byte where "NPDU_CONTROL_NORMAL_MESSAGE = 0x00"

definition APDU_CONFIRMED_REQUEST :: byte where "APDU_CONFIRMED_REQUEST = 0x00"
definition APDU_UNCONFIRMED_REQUEST :: byte where "APDU_UNCONFIRMED_REQUEST = 0x10"
definition APDU_SIMPLE_ACK :: byte where "APDU_SIMPLE_ACK = 0x20"
definition APDU_COMPLEX_ACK :: byte where "APDU_COMPLEX_ACK = 0x30"
definition APDU_ERROR :: byte where "APDU_ERROR = 0x50"

definition SERVICE_UNCONFIRMED_I_AM :: byte where "SERVICE_UNCONFIRMED_I_AM = 0x00"
definition SERVICE_UNCONFIRMED_WHO_IS :: byte where "SERVICE_UNCONFIRMED_WHO_IS = 0x08"
definition SERVICE_UNCONFIRMED_COV_NOTIFICATION :: byte where
  "SERVICE_UNCONFIRMED_COV_NOTIFICATION = 0x01"
definition SERVICE_UNCONFIRMED_EVENT_NOTIFICATION :: byte where
  "SERVICE_UNCONFIRMED_EVENT_NOTIFICATION = 0x02"

definition SERVICE_CONFIRMED_READ_PROPERTY :: byte where
  "SERVICE_CONFIRMED_READ_PROPERTY = 0x0c"
definition SERVICE_CONFIRMED_READ_PROPERTY_MULTIPLE :: byte where
  "SERVICE_CONFIRMED_READ_PROPERTY_MULTIPLE = 0x0e"
definition SERVICE_CONFIRMED_SUBSCRIBE_COV :: byte where
  "SERVICE_CONFIRMED_SUBSCRIBE_COV = 0x05"

definition PROP_ALL :: byte where "PROP_ALL = 8"
definition PROP_OBJECT_LIST :: byte where "PROP_OBJECT_LIST = 76"

definition OBJECT_ANALOG_INPUT :: ObjectType where "OBJECT_ANALOG_INPUT = 0"
definition OBJECT_DEVICE :: ObjectType where "OBJECT_DEVICE = 8"

lemmas bacnet_consts =
  BVLC_TYPE_BACNET_IP_def BVLC_ORIGINAL_UNICAST_NPDU_def BVLC_ORIGINAL_BROADCAST_NPDU_def
  NPDU_CONTROL_NORMAL_MESSAGE_def APDU_CONFIRMED_REQUEST_def APDU_UNCONFIRMED_REQUEST_def
  APDU_SIMPLE_ACK_def APDU_COMPLEX_ACK_def APDU_ERROR_def SERVICE_UNCONFIRMED_I_AM_def
  SERVICE_UNCONFIRMED_WHO_IS_def SERVICE_UNCONFIRMED_COV_NOTIFICATION_def
  SERVICE_UNCONFIRMED_EVENT_NOTIFICATION_def SERVICE_CONFIRMED_READ_PROPERTY_def
  SERVICE_CONFIRMED_READ_PROPERTY_MULTIPLE_def SERVICE_CONFIRMED_SUBSCRIBE_COV_def
  PROP_ALL_def PROP_OBJECT_LIST_def OBJECT_ANALOG_INPUT_def OBJECT_DEVICE_def

section \<open>The byte reader and \<open>encoding/binary\<close>\<close>

text \<open>
  A \<open>bytes.Reader\<close> is modelled by the bytes it has not read yet. \<open>ReadByte\<close> fails
  with \<open>EOF\<close> on an exhausted reader. \<open>io.ReadFull\<close> of \<open>n\<close> bytes succeeds on an
  empty buffer even at the end of the data, returns \<open>EOF\<close> when nothing could be read
  and \<open>ErrUnexpectedEOF\<close> when fewer than \<open>n\<close> bytes were left; a failed read has
  consumed every byte that was left (\<open>ReadFull_rest\<close>).
\<close>

type_synonym reader = "byte list"

definition ReadByte :: "reader \<Rightarrow> error + (byte \<times> reader)" where
  "ReadByte r = (case r of [] \<Rightarrow> Inl EOF | b # r' \<Rightarrow> Inr (b, r'))"

definition ReadFull :: "nat \<Rightarrow> reader \<Rightarrow> error + (byte list \<times> reader)" where
  "ReadFull n r =
     (if n = 0 then Inr ([], r)
      else if r = [] then Inl EOF
      else if length r < n then Inl ErrUnexpectedEOF
      else Inr (take n r, drop n r))"

definition ReadFull_rest :: "nat \<Rightarrow> reader \<Rightarrow> reader" where
  "ReadFull_rest n r = drop n r"

text \<open>
  \<open>b, _ := r.ReadByte()\<close>: the error is dropped, and at the end of the data \<open>b\<close> is
  the zero byte.
\<close>

definition ReadByte_ignore :: "reader \<Rightarrow> byte \<times> reader" where
  "ReadByte_ignore r = (case r of [] \<Rightarrow> (0, []) | b # r' \<Rightarrow> (b, r'))"

text \<open>Big-endian integers, as \<open>binary.BigEndian\<close> reads and writes them.\<close>

definition be_uint16 :: "byte list \<Rightarrow> uint16" where
  "be_uint16 bs = foldl (\<lambda>v b. push_bit 8 v OR ucast b) 0 bs"

definition be_uint32 :: "byte list \<Rightarrow> uint32" where
  "be_uint32 bs = foldl (\<lambda>v b. push_bit 8 v OR ucast b) 0 bs"

definition put_uint16 :: "uint16 \<Rightarrow> byte list" where
  "put_uint16 w = [ucast (drop_bit 8 w), ucast w]"

definition put_uint32 :: "uint32 \<Rightarrow> byte list" where
  "put_uint32 w = [ucast (drop_bit 24 w), ucast (drop_bit 16 w), ucast (drop_bit 8 w), ucast w]"

text \<open>\<open>binary.Read(r, binary.BigEndian, &v)\<close> for \<open>v\<close> a \<open>uint32\<close>, \<open>uint16\<close> or byte.\<close>

definition binary_Read_uint32 :: "reader \<Rightarrow> error + (uint32 \<times> reader)" where
  "binary_Read_uint32 r =
     (case ReadFull 4 r of Inl e \<Rightarrow> Inl e | Inr (bs, r') \<Rightarrow> Inr (be_uint32 bs, r'))"

definition binary_Read_uint16 :: "reader \<Rightarrow> error + (uint16 \<times> reader)" where
  "binary_Read_uint16 r =
     (case ReadFull 2 r of Inl e \<Rightarrow> Inl e | Inr (bs, r') \<Rightarrow> Inr (be_uint16 bs, r'))"

definition binary_Read_byte :: "reader \<Rightarrow> error + (byte \<times> reader)" where
  "binary_Read_byte r =
     (case ReadFull 1 r of Inl e \<Rightarrow> Inl e | Inr (bs, r') \<Rightarrow> Inr (hd bs, r'))"

text \<open>
  \<open>binary.Read(r, binary.BigEndian, &v)\<close> with its error dropped: on a short read
  \<open>v\<close> keeps its zero value and the reader is exhausted.
\<close>

definition binary_Read_uint32_ignore :: "reader \<Rightarrow> uint32 \<times> reader" where
  "binary_Read_uint32_ignore r =
     (case binary_Read_uint32 r of Inl e \<Rightarrow> (0, ReadFull_rest 4 r) | Inr (v, r') \<Rightarrow> (v, r'))"

text \<open>The headers that are read and written as structs.\<close>

record BVLCHeader =
  BVLCType :: byte
  Function :: byte
  Length :: uint16

record NPDU =
  Version :: byte
  Control :: byte

definition binary_Read_BVLCHeader :: "reader \<Rightarrow> error + (BVLCHeader \<times> reader)" where
  "binary_Read_BVLCHeader r =
     (case ReadFull 4 r of
        Inl e \<Rightarrow> Inl e
      | Inr (bs, r') \<Rightarrow>
          Inr (\<lparr>BVLCType = bs ! 0, Function = bs ! 1, Length = be_uint16 (drop 2 bs)\<rparr>, r'))"

definition binary_Read_NPDU :: "reader \<Rightarrow> error + (NPDU \<times> reader)" where
  "binary_Read_NPDU r =
     (case ReadFull 2 r of
        Inl e \<Rightarrow> Inl e
      | Inr (bs, r') \<Rightarrow> Inr (\<lparr>Version = bs ! 0, Control = bs ! 1\<rparr>, r'))"

definition binary_Write_BVLCHeader :: "BVLCHeader \<Rightarrow> byte list" where
  "binary_Write_BVLCHeader h = [BVLCType h, Function h] @ put_uint16 (Length h)"

definition binary_Write_NPDU :: "NPDU \<Rightarrow> byte list" where
  "binary_Write_NPDU n = [Version n, Control n]"

section \<open>Object identifiers\<close>

text \<open>
  The packing \<open>(uint32(object.Type) << 22) | object.Instance\<close> of the request builders
  and the unpacking \<open>BACnetObject{Type: ObjectType(val >> 22), Instance: val & 0x3FFFFF}\<close>
  of the decoders.
\<close>

definition packObjectIdentifier :: "BACnetObject \<Rightarrow> uint32" where
  "packObjectIdentifier object = push_bit 22 (Type object) OR Instance object"

definition unpackObjectIdentifier :: "uint32 \<Rightarrow> BACnetObject" where
  "unpackObjectIdentifier val = \<lparr>Type = drop_bit 22 val, Instance = val AND 0x3FFFFF\<rparr>"

section \<open>Application values (decoder.go)\<close>

definition decodeStatusFlags :: "reader \<Rightarrow> error + (StatusFlags \<times> reader)" where
  "decodeStatusFlags r =
     (case ReadByte r of
        Inl e \<Rightarrow> Inl (Errorf ''failed to read unused bits for Status_Flags'' (Some e))
      | Inr (unusedBits, r1) \<Rightarrow>
          if unusedBits \<noteq> 4
          then Inl (Errorf ''unexpected number of unused bits for Status_Flags'' None)
          else (case ReadByte r1 of
                  Inl e \<Rightarrow> Inl (Errorf ''failed to read flags byte for Status_Flags'' (Some e))
                | Inr (flagsByte, r2) \<Rightarrow>
                    Inr (\<lparr>InAlarm = (drop_bit 3 flagsByte AND 1 = 1),
                          Fault = (drop_bit 2 flagsByte AND 1 = 1),
                          Overridden = (drop_bit 1 flagsByte AND 1 = 1),
                          OutOfService = (drop_bit 0 flagsByte AND 1 = 1)\<rparr>, r2)))"

text \<open>
  The tag octet and, for a length field of 5, the extended length octet. \<open>lenVal\<close> is
  a \<open>uint32\<close>.
\<close>

definition readTagAndLength :: "reader \<Rightarrow> error + (byte \<times> uint32 \<times> reader)" where
  "readTagAndLength r =
     (case ReadByte r of
        Inl e \<Rightarrow> Inl e
      | Inr (tag, r1) \<Rightarrow>
          (let tagNumber = drop_bit 4 tag; lenVal = (ucast (tag AND 0x0F) :: uint32) in
           if lenVal = 5
           then (case ReadByte r1 of
                   Inl e \<Rightarrow> Inl (Errorf ''failed to read extended length'' (Some e))
                 | Inr (lenByte, r2) \<Rightarrow> Inr (tagNumber, ucast lenByte, r2))
           else Inr (tagNumber, lenVal, r1)))"

text \<open>
  \<open>make([]byte, lenVal)\<close> followed by \<open>io.ReadFull\<close>, and the loop
  \<open>val = (val << 8) | uint32(buf[i])\<close> over the buffer. In the CharacterString case
  the buffer has \<open>lenVal - 1\<close> bytes, a subtraction on \<open>uint32\<close> that wraps; the model
  takes Go's \<open>int\<close> to be 64 bits wide, so that every \<open>uint32\<close> is a valid length.
\<close>

definition decodeApplicationValue :: "reader \<Rightarrow> error + (appvalue \<times> reader)" where
  "decodeApplicationValue r =
     (case readTagAndLength r of
        Inl e \<Rightarrow> Inl e
      | Inr (tagNumber, lenVal, r2) \<Rightarrow>
          if tagNumber = 0 then Inr (VNil, r2)
          else if tagNumber = 1 then Inr (VBool (lenVal = 1), r2)
          else if tagNumber = 2 then
            (case ReadFull (unat lenVal) r2 of
               Inl e \<Rightarrow> Inl e
             | Inr (buf, r3) \<Rightarrow> Inr (VUint32 (be_uint32 buf), r3))
          else if tagNumber = 4 then
            (case binary_Read_uint32 r2 of
               Inl e \<Rightarrow> Inl e
             | Inr (val, r3) \<Rightarrow> Inr (VFloat32 val, r3))
          else if tagNumber = 7 then
            (case ReadByte r2 of
               Inl e \<Rightarrow> Inl e
             | Inr (encoding, r3) \<Rightarrow>
                 (case ReadFull (unat (lenVal - 1)) r3 of
                    Inl e \<Rightarrow> Inl e
                  | Inr (buf, r4) \<Rightarrow> Inr (VString buf, r4)))
          else if tagNumber = 8 then
            (case decodeStatusFlags r2 of
               Inl e \<Rightarrow> Inl e
             | Inr (flags, r3) \<Rightarrow> Inr (VStatusFlags flags, r3))
          else if tagNumber = 9 then
            (case ReadFull (unat lenVal) r2 of
               Inl e \<Rightarrow> Inl e
             | Inr (buf, r3) \<Rightarrow> Inr (VUint32 (be_uint32 buf), r3))
          else if tagNumber = 12 then
            (case binary_Read_uint32 r2 of
               Inl e \<Rightarrow> Inl e
             | Inr (val, r3) \<Rightarrow> Inr (VObject (unpackObjectIdentifier val), r3))
          else
            (case ReadFull (unat lenVal) r2 of
               Inl e \<Rightarrow> Inl e
             | Inr (buf, r3) \<Rightarrow> Inr (VBytes buf, r3)))"

section \<open>Termination of the decoding loops\<close>

text \<open>
  Every loop of the decoders reads at least one byte per round, so the number of unread
  bytes is a measure for each of them.
\<close>

lemma bindE_cong [fundef_cong]:
  "x = y \<Longrightarrow> (\<And>v. y = Inr v \<Longrightarrow> f v = g v) \<Longrightarrow> bindE x f = bindE y g"
  by (simp add: bindE_def split: sum.splits)

lemma wrap_Inr [simp]: "wrap msg x = Inr v \<longleftrightarrow> x = Inr v"
  by (simp add: wrap_def split: sum.splits)

lemma ReadByte_length: "ReadByte r = Inr (b, r') \<Longrightarrow> length r' < length r"
  by (auto simp add: ReadByte_def split: list.splits)

lemma ReadFull_length: "ReadFull n r = Inr (bs, r') \<Longrightarrow> length r' \<le> length r"
  by (auto simp add: ReadFull_def split: if_splits)

lemma binary_Read_uint32_length:
  "binary_Read_uint32 r = Inr (v, r') \<Longrightarrow> length r' < length r"
  by (auto simp add: binary_Read_uint32_def ReadFull_def split: if_splits)

lemma binary_Read_byte_length:
  "binary_Read_byte r = Inr (v, r') \<Longrightarrow> length r' < length r"
  by (auto simp add: binary_Read_byte_def ReadFull_def split: if_splits)

lemma decodeStatusFlags_length:
  "decodeStatusFlags r = Inr (v, r') \<Longrightarrow> length r' < length r"
  by (auto simp add: decodeStatusFlags_def split: sum.splits if_splits dest!: ReadByte_length)

lemma readTagAndLength_length:
  "readTagAndLength r = Inr (t, l, r') \<Longrightarrow> length r' < length r"
  by (auto simp add: readTagAndLength_def Let_def split: sum.splits if_splits
      dest!: ReadByte_length)

lemma decodeApplicationValue_length:
  "decodeApplicationValue r = Inr (v, r') \<Longrightarrow> length r' < length r"
  by (auto simp add: decodeApplicationValue_def split: sum.splits if_splits
      dest!: readTagAndLength_length ReadByte_length ReadFull_length binary_Read_uint32_length
             decodeStatusFlags_length)

section \<open>Service decoders (parser.go)\<close>

definition parseIAm :: "byte list \<Rightarrow> UDPAddr \<Rightarrow> error + DeviceInfo" where
  "parseIAm data addr =
     bindE (wrap ''error reading BVLC header'' (binary_Read_BVLCHeader data)) (\<lambda>(bvlcHeader, r1).
     if BVLCType bvlcHeader \<noteq> BVLC_TYPE_BACNET_IP then Inl (Errorf ''not a BACnet/IP packet'' None)
     else
     bindE (wrap ''error reading NPDU header'' (binary_Read_NPDU r1)) (\<lambda>(npduHeader, r2).
     (case ReadByte_ignore r2 of (apduType, r3) \<Rightarrow>
     if apduType AND 0xF0 \<noteq> APDU_UNCONFIRMED_REQUEST
     then Inl (Errorf ''not an unconfirmed request'' None)
     else
     (case ReadByte_ignore r3 of (serviceChoice, r4) \<Rightarrow>
     if serviceChoice \<noteq> SERVICE_UNCONFIRMED_I_AM then Inl (Errorf ''not an I-Am service'' None)
     else
     bindE (wrap ''failed to read object identifier tag'' (ReadByte r4)) (\<lambda>(tag, r5).
     if tag \<noteq> 0xC4 then Inl (Errorf ''unexpected tag for object identifier'' None)
     else
     bindE (wrap ''failed to read object identifier'' (binary_Read_uint32 r5))
       (\<lambda>(objectIdentifier, r6).
     bindE (wrap ''failed to read max APDU tag'' (ReadByte r6)) (\<lambda>(tag, r7).
     if tag \<noteq> 0x22 then Inl (Errorf ''unexpected tag for max APDU'' None)
     else
     bindE (wrap ''failed to read max APDU'' (binary_Read_uint16 r7)) (\<lambda>(maxAPDULen, r8).
     bindE (wrap ''failed to read segmentation tag'' (ReadByte r8)) (\<lambda>(tag, r9).
     if tag \<noteq> 0x91 then Inl (Errorf ''unexpected tag for segmentation'' None)
     else
     bindE (wrap ''failed to read segmentation'' (binary_Read_byte r9)) (\<lambda>(segmentation, r10).
     bindE (wrap ''failed to read vendor ID tag'' (ReadByte r10)) (\<lambda>(tag, r11).
     if tag \<noteq> 0x22 then Inl (Errorf ''unexpected tag for vendor ID'' None)
     else
     bindE (wrap ''failed to read vendor ID'' (binary_Read_uint16 r11)) (\<lambda>(vendorID, r12).
     Inr \<lparr>DeviceID = objectIdentifier AND 0x3FFFFF, IPAddress = IP addr,
          Port = UDPPort addr, MacAddress = [], MaxAPDU = maxAPDULen\<rparr>))))))))))))"

text \<open>The loop of \<open>parseObjectList\<close> over the application-tagged identifiers.\<close>

function parseObjectList_objects ::
  "BACnetObject list \<Rightarrow> reader \<Rightarrow> error + BACnetObject list" where
  "parseObjectList_objects objectList r =
     (case ReadByte r of
        Inl e \<Rightarrow> Inr objectList
      | Inr (tag, r1) \<Rightarrow>
          if tag = 0x3F then Inr objectList
          else if tag = 0xC4 then
            bindE (wrap ''error reading object id from list'' (binary_Read_uint32 r1))
              (\<lambda>(rawObjId, r2).
                 parseObjectList_objects (objectList @ [unpackObjectIdentifier rawObjId]) r2)
          else Inl (Errorf ''unexpected tag in object list'' None))"
  by pat_completeness auto
termination
  apply (relation "measure (\<lambda>(objectList, r). length r)")
   apply simp
  apply (auto dest!: ReadByte_length binary_Read_uint32_length)
  done

declare parseObjectList_objects.simps [simp del]

definition parseObjectList :: "byte list \<Rightarrow> byte \<Rightarrow> error + BACnetObject list" where
  "parseObjectList data expectedInvokeID =
     bindE (wrap ''error reading BVLC header'' (binary_Read_BVLCHeader data)) (\<lambda>(bvlcHeader, r1).
     bindE (wrap ''error reading NPDU header'' (binary_Read_NPDU r1)) (\<lambda>(npduHeader, r2).
     bindE (wrap ''error reading APDU type'' (ReadByte r2)) (\<lambda>(apduType, r3).
     if apduType AND 0xF0 \<noteq> APDU_COMPLEX_ACK then Inl (Errorf ''not a Complex-ACK'' None)
     else
     (case ReadByte_ignore r3 of (invokeID, r4) \<Rightarrow>
     if invokeID \<noteq> expectedInvokeID then Inl (Errorf ''invoke ID mismatch'' None)
     else
     bindE (wrap ''error reading service choice'' (ReadByte r4)) (\<lambda>(service, r5).
     if service \<noteq> SERVICE_CONFIRMED_READ_PROPERTY
     then Inl (Errorf ''not a ReadProperty ACK'' None)
     else
     bindE (wrap ''error reading object identifier tag'' (ReadByte r5)) (\<lambda>(tag, r6).
     if tag \<noteq> 0x0C then Inl (Errorf ''expected object identifier tag 0x0C'' None)
     else
     bindE (wrap ''error reading object identifier'' (binary_Read_uint32 r6)) (\<lambda>(objID, r7).
     bindE (wrap ''error reading property identifier tag'' (ReadByte r7)) (\<lambda>(tag, r8).
     if tag \<noteq> 0x19 then Inl (Errorf ''expected property identifier tag 0x19'' None)
     else
     bindE (wrap ''error reading property identifier'' (binary_Read_byte r8)) (\<lambda>(propID, r9).
     bindE (wrap ''error reading opening tag for object list'' (ReadByte r9)) (\<lambda>(tag, r10).
     if tag \<noteq> 0x3E then Inl (Errorf ''expected opening tag 0x3E for object list'' None)
     else parseObjectList_objects [] r10))))))))))"

text \<open>
  The prologue shared, word for word, by \<open>parseObjectPropertyList\<close> and
  \<open>parseReadPropertyMultipleResponse\<close>: BVLC and NPDU headers, the APDU type, the
  invoke ID (read with its error dropped) and the service choice. It returns the
  reader placed on the first read-access-result.
\<close>

definition readPropertyMultipleAckHeader :: "byte list \<Rightarrow> byte \<Rightarrow> error + reader" where
  "readPropertyMultipleAckHeader data expectedInvokeID =
     bindE (wrap ''error reading BVLC header'' (binary_Read_BVLCHeader data)) (\<lambda>(bvlcHeader, r1).
     bindE (wrap ''error reading NPDU header'' (binary_Read_NPDU r1)) (\<lambda>(npduHeader, r2).
     bindE (wrap ''error reading APDU type'' (ReadByte r2)) (\<lambda>(apduType, r3).
     if apduType AND 0xF0 = APDU_ERROR then Inl (Errorf ''received BACnet Error PDU'' None)
     else if apduType AND 0xF0 \<noteq> APDU_COMPLEX_ACK then Inl (Errorf ''not a Complex-ACK'' None)
     else
     (case ReadByte_ignore r3 of (invokeID, r4) \<Rightarrow>
     if invokeID \<noteq> expectedInvokeID then Inl (Errorf ''invoke ID mismatch'' None)
     else
     bindE (wrap ''error reading service choice'' (ReadByte r4)) (\<lambda>(service, r5).
     if service \<noteq> SERVICE_CONFIRMED_READ_PROPERTY_MULTIPLE
     then Inl (Errorf ''not a ReadPropertyMultiple ACK'' None)
     else Inr r5)))))"

text \<open>
  \<open>parseObjectPropertyList\<close>: the innermost loop collects the application values up
  to the closing tag \<open>4F\<close> (peeked with \<open>ReadByte\<close> and \<open>UnreadByte\<close>), the middle
  loop the property records up to \<open>1F\<close>, the outer loop the read-access-results while
  \<open>r.Len() > 0\<close>.
\<close>

function parseObjectPropertyList_values ::
  "appvalue list \<Rightarrow> reader \<Rightarrow> error + (appvalue list \<times> reader)" where
  "parseObjectPropertyList_values values r =
     bindE (ReadByte r) (\<lambda>(peek, r1).
       if peek = 0x4F then Inr (values, r1)
       else
         bindE (wrap ''failed to decode application value for prop'' (decodeApplicationValue r))
           (\<lambda>(val, r2). parseObjectPropertyList_values (values @ [val]) r2))"
  by pat_completeness auto
termination
  apply (relation "measure (\<lambda>(values, r). length r)")
   apply simp
  apply (auto dest!: decodeApplicationValue_length)
  done

declare parseObjectPropertyList_values.simps [simp del]

lemma bindE_Inr_iff:
  "bindE x f = Inr w \<longleftrightarrow> (\<exists>v. x = Inr v \<and> f v = Inr w)"
  by (cases x) (simp_all add: bindE_def)

lemma parseObjectPropertyList_values_length:
  "parseObjectPropertyList_values values r = Inr (values', r') \<Longrightarrow> length r' < length r"
proof (induction "values" r arbitrary: values' r' rule: parseObjectPropertyList_values.induct)
  case (1 "values" r)
  from "1.prems" obtain peek r1 where rb: "ReadByte r = Inr (peek, r1)"
    and body: "(if peek = 0x4F then Inr (values, r1)
       else bindE (wrap ''failed to decode application value for prop'' (decodeApplicationValue r))
           (\<lambda>(val, r2). parseObjectPropertyList_values (values @ [val]) r2)) = Inr (values', r')"
    by (subst (asm) parseObjectPropertyList_values.simps) (auto simp add: bindE_Inr_iff)
  show ?case
  proof (cases "peek = 0x4F")
    case True
    with body rb show ?thesis by (auto dest: ReadByte_length)
  next
    case False
    with body obtain val r2 where d: "decodeApplicationValue r = Inr (val, r2)"
      and rec: "parseObjectPropertyList_values (values @ [val]) r2 = Inr (values', r')"
      by (auto simp add: bindE_Inr_iff)
    have "length r' < length r2"
      using "1.IH" [OF rb refl False _ refl rec] d by simp
    with decodeApplicationValue_length [OF d] show ?thesis by simp
  qed
qed

function parseObjectPropertyList_properties ::
  "BACnetPropertyValue list \<Rightarrow> reader \<Rightarrow> error + (BACnetPropertyValue list \<times> reader)" where
  "parseObjectPropertyList_properties allProperties r =
     bindE (wrap ''failed to read tag inside property list'' (ReadByte r)) (\<lambda>(tag, r1).
       if tag = 0x1F then Inr (allProperties, r1)
       else if tag \<noteq> 0x29 then Inl (Errorf ''expected property identifier tag 0x29'' None)
       else
         bindE (wrap ''failed to read property identifier'' (binary_Read_byte r1)) (\<lambda>(propID, r2).
         bindE (wrap ''failed to read opening tag for property value'' (ReadByte r2)) (\<lambda>(tag, r3).
           if tag \<noteq> 0x4E then Inl (Errorf ''expected opening tag 0x4E for property value'' None)
           else
             bindE (parseObjectPropertyList_values [] r3) (\<lambda>(values, r4).
               parseObjectPropertyList_properties
                 (allProperties @
                    [\<lparr>PropertyID = ucast propID,
                      Value = (if length values = 1 then values ! 0 else VList values)\<rparr>])
                 r4))))"
  by pat_completeness auto
termination
  apply (relation "measure (\<lambda>(allProperties, r). length r)")
   apply simp
  apply (auto dest!: ReadByte_length binary_Read_byte_length parseObjectPropertyList_values_length)
  done

declare parseObjectPropertyList_properties.simps [simp del]

lemma parseObjectPropertyList_properties_length:
  "parseObjectPropertyList_properties allProperties r = Inr (allProperties', r')
   \<Longrightarrow> length r' < length r"
proof (induction allProperties r arbitrary: allProperties' r'
    rule: parseObjectPropertyList_properties.induct)
  case (1 allProperties r)
  from "1.prems" obtain tag r1 where rb: "ReadByte r = Inr (tag, r1)"
    and body: "(if tag = 0x1F then Inr (allProperties, r1)
       else if tag \<noteq> 0x29 then Inl (Errorf ''expected property identifier tag 0x29'' None)
       else
         bindE (wrap ''failed to read property identifier'' (binary_Read_byte r1)) (\<lambda>(propID, r2).
         bindE (wrap ''failed to read opening tag for property value'' (ReadByte r2)) (\<lambda>(tag, r3).
           if tag \<noteq> 0x4E then Inl (Errorf ''expected opening tag 0x4E for property value'' None)
           else
             bindE (parseObjectPropertyList_values [] r3) (\<lambda>(values, r4).
               parseObjectPropertyList_properties
                 (allProperties @
                    [\<lparr>PropertyID = ucast propID,
                      Value = (if length values = 1 then values ! 0 else VList values)\<rparr>])
                 r4)))) = Inr (allProperties', r')"
    by (subst (asm) parseObjectPropertyList_properties.simps) (auto simp add: bindE_Inr_iff)
  show ?case
  proof (cases "tag = 0x1F")
    case True
    with body rb show ?thesis by (auto dest: ReadByte_length)
  next
    case False
    with body have t29: "tag = 0x29" by (auto split: if_splits)
    with body False obtain propID r2 tag3 r3 vs r4 where
      p: "binary_Read_byte r1 = Inr (propID, r2)" and
      o: "ReadByte r2 = Inr (tag3, r3)" and t3: "tag3 = 0x4E" and
      v: "parseObjectPropertyList_values [] r3 = Inr (vs, r4)" and
      rec: "parseObjectPropertyList_properties
              (allProperties @
                 [\<lparr>PropertyID = ucast propID,
                   Value = (if length vs = 1 then vs ! 0 else VList vs)\<rparr>]) r4
            = Inr (allProperties', r')"
      by (auto simp add: bindE_Inr_iff split: if_splits)
    have t29': "\<not> tag \<noteq> 0x29" using t29 by simp
    have t3': "\<not> tag3 \<noteq> 0x4E" using t3 by simp
    have wrb: "wrap ''failed to read tag inside property list'' (ReadByte r) = Inr (tag, r1)"
      using rb by simp
    have wp: "wrap ''failed to read property identifier'' (binary_Read_byte r1) = Inr (propID, r2)"
      using p by simp
    have wo: "wrap ''failed to read opening tag for property value'' (ReadByte r2) = Inr (tag3, r3)"
      using o by simp
    have "length r' < length r4"
      by (rule "1.IH" [OF wrb refl False t29' wp refl wo refl t3' v refl rec])
    with ReadByte_length [OF rb] binary_Read_byte_length [OF p] ReadByte_length [OF o]
      parseObjectPropertyList_values_length [OF v]
    show ?thesis by simp
  qed
qed

function parseObjectPropertyList_objects ::
  "BACnetPropertyValue list \<Rightarrow> reader \<Rightarrow> error + BACnetPropertyValue list" where
  "parseObjectPropertyList_objects allProperties r =
     (if length r > 0 then
        (case ReadByte r of
           Inl e \<Rightarrow> Inr allProperties
         | Inr (tag, r1) \<Rightarrow>
             if tag \<noteq> 0x0C then Inl (Errorf ''expected object identifier tag 0x0C'' None)
             else
               bindE (wrap ''failed to read object identifier'' (binary_Read_uint32 r1))
                 (\<lambda>(objectIdentifier, r2).
               bindE (wrap ''failed to read opening tag for property list'' (ReadByte r2))
                 (\<lambda>(tag, r3).
                 if tag \<noteq> 0x1E
                 then Inl (Errorf ''expected opening tag 0x1E for property list'' None)
                 else
                   bindE (parseObjectPropertyList_properties allProperties r3)
                     (\<lambda>(allProperties', r4).
                        parseObjectPropertyList_objects allProperties' r4))))
      else Inr allProperties)"
  by pat_completeness auto
termination
  apply (relation "measure (\<lambda>(allProperties, r). length r)")
   apply simp
  apply (auto dest!: ReadByte_length binary_Read_uint32_length
      parseObjectPropertyList_properties_length)
  done

declare parseObjectPropertyList_objects.simps [simp del]

definition parseObjectPropertyList ::
  "byte list \<Rightarrow> byte \<Rightarrow> error + BACnetPropertyValue list" where
  "parseObjectPropertyList data expectedInvokeID =
     bindE (readPropertyMultipleAckHeader data expectedInvokeID)
       (\<lambda>r. parseObjectPropertyList_objects [] r)"

text \<open>
  \<open>parseReadPropertyMultipleResponse\<close> (decoder.go). The Go maps
  \<open>map[uint32]interface{}\<close> and \<open>map[BACnetObject]interface{}\<close> are maps; an
  assignment \<open>m[k] = v\<close> replaces what \<open>m\<close> held at \<open>k\<close>. Each property record
  holds one application value between \<open>4E\<close> and \<open>4F\<close>.
\<close>

type_synonym properties = "uint32 \<rightharpoonup> appvalue"
type_synonym results = "BACnetObject \<rightharpoonup> properties"

function parseReadPropertyMultipleResponse_properties ::
  "properties \<Rightarrow> reader \<Rightarrow> error + (properties \<times> reader)" where
  "parseReadPropertyMultipleResponse_properties objectProperties r =
     bindE (wrap ''failed to read tag inside property list'' (ReadByte r)) (\<lambda>(tag, r1).
       if tag = 0x1F then Inr (objectProperties, r1)
       else if tag \<noteq> 0x29 then Inl (Errorf ''expected property identifier tag 0x29'' None)
       else
         bindE (wrap ''failed to read property identifier'' (binary_Read_byte r1)) (\<lambda>(propID, r2).
         bindE (wrap ''failed to read opening tag for property value'' (ReadByte r2)) (\<lambda>(tag, r3).
           if tag \<noteq> 0x4E then Inl (Errorf ''expected opening tag 0x4E for property value'' None)
           else
             bindE (wrap ''failed to decode application value for prop''
                      (decodeApplicationValue r3)) (\<lambda>(val, r4).
             bindE (wrap ''failed to read closing tag for property value'' (ReadByte r4))
               (\<lambda>(tag, r5).
               if tag \<noteq> 0x4F
               then Inl (Errorf ''expected closing tag 0x4F for property value'' None)
               else parseReadPropertyMultipleResponse_properties
                      (objectProperties(ucast propID \<mapsto> val)) r5)))))"
  by pat_completeness auto
termination
  apply (relation "measure (\<lambda>(objectProperties, r). length r)")
   apply simp
  apply (auto dest!: ReadByte_length binary_Read_byte_length decodeApplicationValue_length)
  done

declare parseReadPropertyMultipleResponse_properties.simps [simp del]

lemma parseReadPropertyMultipleResponse_properties_length:
  "parseReadPropertyMultipleResponse_properties objectProperties r = Inr (objectProperties', r')
   \<Longrightarrow> length r' < length r"
proof (induction objectProperties r arbitrary: objectProperties' r'
    rule: parseReadPropertyMultipleResponse_properties.induct)
  case (1 objectProperties r)
  from "1.prems" obtain tag r1 where rb: "ReadByte r = Inr (tag, r1)"
    and body: "(if tag = 0x1F then Inr (objectProperties, r1)
       else if tag \<noteq> 0x29 then Inl (Errorf ''expected property identifier tag 0x29'' None)
       else
         bindE (wrap ''failed to read property identifier'' (binary_Read_byte r1)) (\<lambda>(propID, r2).
         bindE (wrap ''failed to read opening tag for property value'' (ReadByte r2)) (\<lambda>(tag, r3).
           if tag \<noteq> 0x4E then Inl (Errorf ''expected opening tag 0x4E for property value'' None)
           else
             bindE (wrap ''failed to decode application value for prop''
                      (decodeApplicationValue r3)) (\<lambda>(val, r4).
             bindE (wrap ''failed to read closing tag for property value'' (ReadByte r4))
               (\<lambda>(tag, r5).
               if tag \<noteq> 0x4F
               then Inl (Errorf ''expected closing tag 0x4F for property value'' None)
               else parseReadPropertyMultipleResponse_properties
                      (objectProperties(ucast propID \<mapsto> val)) r5)))))
        = Inr (objectProperties', r')"
    by (subst (asm) parseReadPropertyMultipleResponse_properties.simps)
      (auto simp add: bindE_Inr_iff)
  show ?case
  proof (cases "tag = 0x1F")
    case True
    with body rb show ?thesis by (auto dest: ReadByte_length)
  next
    case False
    with body have t29: "\<not> tag \<noteq> 0x29" by (auto split: if_splits)
    with body False obtain propID r2 tag3 r3 val r4 tag5 r5 where
      p: "binary_Read_byte r1 = Inr (propID, r2)" and
      o: "ReadByte r2 = Inr (tag3, r3)" and t3: "\<not> tag3 \<noteq> 0x4E" and
      d: "decodeApplicationValue r3 = Inr (val, r4)" and
      c: "ReadByte r4 = Inr (tag5, r5)" and t5: "\<not> tag5 \<noteq> 0x4F" and
      rec: "parseReadPropertyMultipleResponse_properties
              (objectProperties(ucast propID \<mapsto> val)) r5 = Inr (objectProperties', r')"
      by (auto simp add: bindE_Inr_iff split: if_splits)
    have wrb: "wrap ''failed to read tag inside property list'' (ReadByte r) = Inr (tag, r1)"
      using rb by simp
    have wp: "wrap ''failed to read property identifier'' (binary_Read_byte r1) = Inr (propID, r2)"
      using p by simp
    have wo: "wrap ''failed to read opening tag for property value'' (ReadByte r2) = Inr (tag3, r3)"
      using o by simp
    have wd: "wrap ''failed to decode application value for prop'' (decodeApplicationValue r3)
                = Inr (val, r4)"
      using d by simp
    have wc: "wrap ''failed to read closing tag for property value'' (ReadByte r4) = Inr (tag5, r5)"
      using c by simp
    have "length r' < length r5"
      by (rule "1.IH" [OF wrb refl False t29 wp refl wo refl t3 wd refl wc refl t5 rec])
    with ReadByte_length [OF rb] binary_Read_byte_length [OF p] ReadByte_length [OF o]
      decodeApplicationValue_length [OF d] ReadByte_length [OF c]
    show ?thesis by simp
  qed
qed

function parseReadPropertyMultipleResponse_objects ::
  "results \<Rightarrow> reader \<Rightarrow> error + results" where
  "parseReadPropertyMultipleResponse_objects results r =
     (if length r > 0 then
        (case ReadByte r of
           Inl e \<Rightarrow> Inr results
         | Inr (tag, r1) \<Rightarrow>
             if tag \<noteq> 0x0C then Inl (Errorf ''expected object identifier tag 0x0C'' None)
             else
               bindE (wrap ''failed to read object identifier'' (binary_Read_uint32 r1))
                 (\<lambda>(objectIdentifier, r2).
               bindE (wrap ''failed to read opening tag for property list'' (ReadByte r2))
                 (\<lambda>(tag, r3).
                 if tag \<noteq> 0x1E
                 then Inl (Errorf ''expected opening tag 0x1E for property list'' None)
                 else
                   bindE (parseReadPropertyMultipleResponse_properties Map.empty r3)
                     (\<lambda>(objectProperties, r4).
                        parseReadPropertyMultipleResponse_objects
                          (results(unpackObjectIdentifier objectIdentifier \<mapsto> objectProperties))
                          r4))))
      else Inr results)"
  by pat_completeness auto
termination
  apply (relation "measure (\<lambda>(results, r). length r)")
   apply simp
  apply (auto dest!: ReadByte_length binary_Read_uint32_length
      parseReadPropertyMultipleResponse_properties_length)
  done

declare parseReadPropertyMultipleResponse_objects.simps [simp del]

definition parseReadPropertyMultipleResponse :: "byte list \<Rightarrow> byte \<Rightarrow> error + results" where
  "parseReadPropertyMultipleResponse data expectedInvokeID =
     bindE (readPropertyMultipleAckHeader data expectedInvokeID)
       (\<lambda>r. parseReadPropertyMultipleResponse_objects Map.empty r)"

text \<open>\<open>parseCOVNotification\<close> (parser.go): the loop over the list of values.\<close>

function parseCOVNotification_values ::
  "BACnetPropertyValue list \<Rightarrow> reader \<Rightarrow> error + BACnetPropertyValue list" where
  "parseCOVNotification_values listOfValues r =
     bindE (wrap ''failed to read tag inside property values'' (ReadByte r)) (\<lambda>(tag, r1).
       if tag = 0x4F then Inr listOfValues
       else if tag \<noteq> 0x09 then Inl (Errorf ''expected property identifier tag 0x09'' None)
       else
         bindE (wrap ''failed to read property identifier'' (binary_Read_byte r1)) (\<lambda>(propID, r2).
         bindE (wrap ''failed to read opening tag for property value'' (ReadByte r2)) (\<lambda>(tag, r3).
           if tag \<noteq> 0x2E then Inl (Errorf ''expected opening tag 0x2E for property value'' None)
           else
             bindE (wrap ''failed to decode application value for prop''
                      (decodeApplicationValue r3)) (\<lambda>(val, r4).
             bindE (wrap ''failed to read closing tag for property value'' (ReadByte r4))
               (\<lambda>(tag, r5).
               if tag \<noteq> 0x2F
               then Inl (Errorf ''expected closing tag 0x2F for property value'' None)
               else parseCOVNotification_values
                      (listOfValues @ [\<lparr>PropertyID = ucast propID, Value = val\<rparr>]) r5)))))"
  by pat_completeness auto
termination
  apply (relation "measure (\<lambda>(listOfValues, r). length r)")
   apply simp
  apply (auto dest!: ReadByte_length binary_Read_byte_length decodeApplicationValue_length)
  done

declare parseCOVNotification_values.simps [simp del]

text \<open>
  The four fixed fields are read as \<open>tag, err = r.ReadByte()\<close> followed by a test of
  \<open>tag\<close> alone: at the end of the data \<open>tag\<close> is 0 and the test fails. The two
  object identifiers are read by \<open>binary.Read\<close> with the error dropped.
\<close>

definition parseCOVNotification :: "byte list \<Rightarrow> error + COVNotification" where
  "parseCOVNotification data =
     bindE (wrap ''error reading APDU type'' (ReadByte (drop 6 data))) (\<lambda>(apduType, r1).
     if apduType AND 0xF0 \<noteq> APDU_UNCONFIRMED_REQUEST
     then Inl (Errorf ''not an Unconfirmed-Request'' None)
     else
     bindE (wrap ''error reading service choice'' (ReadByte r1)) (\<lambda>(service, r2).
     if service \<noteq> SERVICE_UNCONFIRMED_EVENT_NOTIFICATION
     then Inl (Errorf ''not a COV Notification or Event Notification'' None)
     else
     (case ReadByte_ignore r2 of (tag, r3) \<Rightarrow>
     if tag \<noteq> 0x09
     then Inl (Errorf ''error reading subscriber process identifier tag''
                 (case ReadByte r2 of Inl e \<Rightarrow> Some e | Inr x \<Rightarrow> None))
     else
     (case ReadByte_ignore r3 of (subId, r4) \<Rightarrow>
     (case ReadByte_ignore r4 of (tag, r5) \<Rightarrow>
     if tag \<noteq> 0x1C then Inl (Errorf ''unexpected tag for device identifier'' None)
     else
     (case binary_Read_uint32_ignore r5 of (devId, r6) \<Rightarrow>
     (case ReadByte_ignore r6 of (tag, r7) \<Rightarrow>
     if tag \<noteq> 0x2C then Inl (Errorf ''unexpected tag for object identifier'' None)
     else
     (case binary_Read_uint32_ignore r7 of (objId, r8) \<Rightarrow>
     (case ReadByte_ignore r8 of (tag, r9) \<Rightarrow>
     if tag \<noteq> 0x39
     then Inl (Errorf ''error reading time remaining tag''
                 (case ReadByte r8 of Inl e \<Rightarrow> Some e | Inr x \<Rightarrow> None))
     else
     (case ReadByte_ignore r9 of (timeRem, r10) \<Rightarrow>
     bindE (wrap ''failed to read opening tag for property values'' (ReadByte r10)) (\<lambda>(tag, r11).
     if tag \<noteq> 0x4E then Inl (Errorf ''expected opening tag 0x4E for property values'' None)
     else
     bindE (parseCOVNotification_values [] r11) (\<lambda>listOfValues.
     Inr \<lparr>SubscriberProcessIdentifier = ucast subId,
          InitiatingDeviceIdentifier = unpackObjectIdentifier devId,
          MonitoredObjectIdentifier = unpackObjectIdentifier objId,
          TimeRemaining = ucast timeRem,
          ListOfValues = listOfValues\<rparr>))))))))))))"

section \<open>The invoke-ID allocator\<close>

text \<open>
  \<open>invokeIDManager.Next\<close> increments the byte \<open>lastID\<close> (wrapping from 255 to 0) and
  returns the new value. The global \<open>GInvokeIDManager\<close> is passed to every function
  that uses it and returned updated; its mutex is not modelled.
\<close>

record invokeIDManager =
  lastID :: byte

definition Next :: "invokeIDManager \<Rightarrow> byte \<times> invokeIDManager" where
  "Next m = (let m' = m\<lparr>lastID := lastID m + 1\<rparr> in (lastID m', m'))"

section \<open>Request builders and the exchange on the socket (decoder.go)\<close>

text \<open>
  The socket is a parameter of the model: \<open>WriteTo_error\<close> is the error of
  \<open>conn.WriteTo\<close> (if any), \<open>ReadFromUDP_result\<close> the outcome of the one
  \<open>conn.ReadFromUDP\<close> that follows. A request function returns the allocator, the
  datagram it handed to \<open>WriteTo\<close>, the invoke ID it took from \<open>Next\<close> and its
  own result.
\<close>

datatype udp_read = ReadTimeout | ReadError error | ReadData "byte list"

record udp_conn =
  WriteTo_error :: "error option"
  ReadFromUDP_result :: udp_read

record 'a exchange =
  manager :: invokeIDManager
  allocated :: byte
  sent :: "byte list"
  outcome :: 'a

text \<open>
  \<open>n, _, err := c.conn.ReadFromUDP(readBuffer)\<close> with a buffer of \<open>bufferSize\<close> bytes, and
  the two error returns that follow it.
\<close>

definition readReply :: "udp_conn \<Rightarrow> nat \<Rightarrow> string \<Rightarrow> error + byte list" where
  "readReply conn bufferSize timeoutMsg =
     (case ReadFromUDP_result conn of
        ReadTimeout \<Rightarrow> Inl (Errorf timeoutMsg None)
      | ReadError e \<Rightarrow> Inl (Errorf ''failed to read from UDP'' (Some e))
      | ReadData d \<Rightarrow> Inr (take bufferSize d))"

text \<open>
  The BVLC header, with \<open>Length: uint16(4 + 2 + apduBuffer.Len())\<close>, the NPDU header
  (version 1, control \<open>0x04\<close>) and the APDU, as every confirmed request writes them.
\<close>

definition confirmedRequestDatagram :: "byte list \<Rightarrow> byte list" where
  "confirmedRequestDatagram apduBuffer =
     binary_Write_BVLCHeader
       \<lparr>BVLCType = BVLC_TYPE_BACNET_IP, Function = BVLC_ORIGINAL_UNICAST_NPDU,
        Length = of_nat (4 + 2 + length apduBuffer)\<rparr>
     @ binary_Write_NPDU \<lparr>Version = 1, Control = 0x04\<rparr>
     @ apduBuffer"

definition GetObjectList ::
  "invokeIDManager \<Rightarrow> udp_conn \<Rightarrow> DeviceInfo \<Rightarrow> (error + BACnetObject list) exchange" where
  "GetObjectList m conn device =
     (let (invokeID, m') = Next m;
          objectIdentifier = push_bit 22 OBJECT_DEVICE OR DeviceID device;
          apduBuffer =
            [APDU_CONFIRMED_REQUEST OR 0x02, 0x75, invokeID, SERVICE_CONFIRMED_READ_PROPERTY]
            @ [0x0C] @ put_uint32 objectIdentifier
            @ [0x19, PROP_OBJECT_LIST];
          buffer = confirmedRequestDatagram apduBuffer
      in \<lparr>manager = m', allocated = invokeID, sent = buffer,
          outcome =
            (case WriteTo_error conn of
               Some e \<Rightarrow> Inl (Errorf ''failed to send ReadProperty packet'' (Some e))
             | None \<Rightarrow>
                 bindE (readReply conn 2048 ''timeout waiting for ReadProperty response'')
                   (\<lambda>data. parseObjectList data invokeID))\<rparr>)"

definition GetObjectAllPropertyList ::
  "invokeIDManager \<Rightarrow> udp_conn \<Rightarrow> DeviceInfo \<Rightarrow> BACnetObject
     \<Rightarrow> (error + BACnetPropertyValue list) exchange" where
  "GetObjectAllPropertyList m conn device object =
     (let (invokeID, m') = Next m;
          objectIdentifier = packObjectIdentifier object;
          apduBuffer =
            [APDU_CONFIRMED_REQUEST OR 0x02, 0x75, invokeID,
             SERVICE_CONFIRMED_READ_PROPERTY_MULTIPLE]
            @ [0x0C] @ put_uint32 objectIdentifier
            @ [0x1E] @ [0x09, PROP_ALL] @ [0x1F];
          buffer = confirmedRequestDatagram apduBuffer
      in \<lparr>manager = m', allocated = invokeID, sent = buffer,
          outcome =
            (case WriteTo_error conn of
               Some e \<Rightarrow> Inl (Errorf ''failed to send ReadPropertyMultiple packet'' (Some e))
             | None \<Rightarrow>
                 bindE (readReply conn 4096 ''timeout waiting for ReadPropertyMultiple response'')
                   (\<lambda>data. parseObjectPropertyList data invokeID))\<rparr>)"

text \<open>
  \<open>ReadPropertiesFromMultipleObjects\<close> takes an invoke ID from \<open>Next\<close> and passes it
  to the parser of the reply, but its APDU has no \<open>apduBuffer.WriteByte(invokeID)\<close>:
  the service choice follows the octet \<open>0x75\<close> directly.
\<close>

definition ReadPropertiesFromMultipleObjects ::
  "invokeIDManager \<Rightarrow> udp_conn \<Rightarrow> DeviceInfo \<Rightarrow> BACnetObject list \<Rightarrow> uint32
     \<Rightarrow> (error + results) exchange" where
  "ReadPropertiesFromMultipleObjects m conn device objects propertyID =
     (let (invokeID, m') = Next m;
          apduBuffer =
            [APDU_CONFIRMED_REQUEST OR 0x02, 0x75, SERVICE_CONFIRMED_READ_PROPERTY_MULTIPLE]
            @ concat (map (\<lambda>obj. [0x0C] @ put_uint32 (packObjectIdentifier obj)
                                   @ [0x1E] @ [0x09, ucast propertyID] @ [0x1F]) objects);
          buffer = confirmedRequestDatagram apduBuffer
      in \<lparr>manager = m', allocated = invokeID, sent = buffer,
          outcome =
            (case WriteTo_error conn of
               Some e \<Rightarrow> Inl (Errorf ''failed to send ReadPropertyMultiple packet'' (Some e))
             | None \<Rightarrow>
                 bindE (readReply conn 4096 ''timeout waiting for ReadPropertyMultiple response'')
                   (\<lambda>data. parseReadPropertyMultipleResponse data invokeID))\<rparr>)"

definition ReadSpecificPropertiesFromObject ::
  "invokeIDManager \<Rightarrow> udp_conn \<Rightarrow> DeviceInfo \<Rightarrow> BACnetObject \<Rightarrow> uint32 list
     \<Rightarrow> (error + properties) exchange" where
  "ReadSpecificPropertiesFromObject m conn device object propertyIDs =
     (let (invokeID, m') = Next m;
          objectIdentifier = packObjectIdentifier object;
          apduBuffer =
            [APDU_CONFIRMED_REQUEST OR 0x02, 0x75, invokeID,
             SERVICE_CONFIRMED_READ_PROPERTY_MULTIPLE]
            @ [0x0C] @ put_uint32 objectIdentifier
            @ [0x1E]
            @ concat (map (\<lambda>propID. [0x09, ucast propID]) propertyIDs)
            @ [0x1F];
          buffer = confirmedRequestDatagram apduBuffer
      in \<lparr>manager = m', allocated = invokeID, sent = buffer,
          outcome =
            (case WriteTo_error conn of
               Some e \<Rightarrow> Inl (Errorf ''failed to send ReadPropertyMultiple packet'' (Some e))
             | None \<Rightarrow>
                 bindE (readReply conn 4096 ''timeout waiting for ReadPropertyMultiple response'')
                   (\<lambda>data.
                 bindE (parseReadPropertyMultipleResponse data invokeID) (\<lambda>parsedResults.
                   (case parsedResults object of
                      Some propsMap \<Rightarrow> Inr propsMap
                    | None \<Rightarrow>
                        Inl (Errorf ''object not found in ReadPropertyMultiple response''
                               None)))))\<rparr>)"

text \<open>
  \<open>sendSubscribeCOVRequest\<close> returns an error or nil: \<open>outcome\<close> is \<open>Some\<close> error
  or \<open>None\<close>. The Simple-ACK is checked after a \<open>Seek\<close> to offset 6, with both
  \<open>ReadByte\<close> errors dropped.
\<close>

definition sendSubscribeCOVRequest ::
  "invokeIDManager \<Rightarrow> udp_conn \<Rightarrow> DeviceInfo \<Rightarrow> BACnetObject \<Rightarrow> uint32 \<Rightarrow> bool \<Rightarrow> byte
     \<Rightarrow> (error option) exchange" where
  "sendSubscribeCOVRequest m conn device object subscriberProcessIdentifier
       issueConfirmedNotifications lifetime =
     (let (invokeID, m') = Next m;
          monitoredObjectIdentifier = packObjectIdentifier object;
          apduBuffer =
            [APDU_CONFIRMED_REQUEST OR 0x02, 0x75, invokeID, SERVICE_CONFIRMED_SUBSCRIBE_COV]
            @ [0x09, ucast subscriberProcessIdentifier]
            @ [0x1C] @ put_uint32 monitoredObjectIdentifier
            @ [0x29, if issueConfirmedNotifications then 1 else 0]
            @ [0x39, lifetime];
          buffer = confirmedRequestDatagram apduBuffer
      in \<lparr>manager = m', allocated = invokeID, sent = buffer,
          outcome =
            (case WriteTo_error conn of
               Some e \<Rightarrow> Some (Errorf ''failed to send SubscribeCOV packet'' (Some e))
             | None \<Rightarrow>
                 (case readReply conn 2048 ''timeout waiting for SubscribeCOV response'' of
                    Inl e \<Rightarrow> Some e
                  | Inr data \<Rightarrow>
                      (case ReadByte_ignore (drop 6 data) of (apduType, r1) \<Rightarrow>
                         if apduType AND 0xF0 \<noteq> APDU_SIMPLE_ACK
                         then Some (Errorf ''not a Simple-ACK'' None)
                         else
                           (case ReadByte_ignore r1 of (respInvokeID, r2) \<Rightarrow>
                              if respInvokeID \<noteq> invokeID
                              then Some (Errorf ''invoke ID mismatch'' None)
                              else None))))\<rparr>)"

section \<open>The re-subscription interval (handleCOVSubscription)\<close>

text \<open>
  \<open>reSubscribeInterval := time.Duration(float64(lifetime)*0.8) * time.Second\<close>, and
  one second when that is not positive. The \<open>float64\<close> values that occur are
  nonnegative and normal; the value \<open>k * 2^-53\<close> is represented by the natural number
  \<open>k\<close>. \<open>float64_0_8\<close> is the constant \<open>0.8\<close> as a \<open>float64\<close>
  (\<open>0x3FE999999999999A\<close>). The product of two \<open>float64\<close> values is the exact
  product rounded to 53 significant bits, ties to even (\<open>round_to_float64\<close>); the
  conversion to \<open>time.Duration\<close>, an \<open>int64\<close> of nanoseconds, truncates the
  fraction.
\<close>

fun bitlen :: "nat \<Rightarrow> nat" where
  "bitlen n = (if n = 0 then 0 else Suc (bitlen (n div 2)))"

declare bitlen.simps [simp del]

definition round_to_float64 :: "nat \<Rightarrow> nat" where
  "round_to_float64 k =
     (let e = bitlen k - 53; q = k div 2 ^ e; rest = k mod 2 ^ e
      in if 2 ^ e < 2 * rest \<or> (2 * rest = 2 ^ e \<and> odd q) then (q + 1) * 2 ^ e else q * 2 ^ e)"

definition float64_0_8 :: nat where
  "float64_0_8 = 7205759403792794"

definition Second :: int where
  "Second = 1000000000"

definition reSubscribeInterval :: "byte \<Rightarrow> int" where
  "reSubscribeInterval lifetime =
     (let product = round_to_float64 (unat lifetime * float64_0_8);
          interval = int (product div 2 ^ 53) * Second
      in if interval \<le> 0 then 1 * Second else interval)"

section \<open>The body of a ReadPropertyMultiple ACK as a list of read-access-results\<close>

text \<open>
  A second view of the body, following the description of the ReadPropertyMultiple ACK
  in the specification: until the reader is exhausted, a context-0 object identifier,
  the opening tag 1, property records and the closing tag 1; a property record is a
  context-2 property identifier of one octet, the opening tag 4, an application value
  and the closing tag 4. \<open>readAccessResults\<close> lists the results in the order of the
  body, each with its property records in order, without merging anything.
\<close>

type_synonym property_records = "(uint32 \<times> appvalue) list"
type_synonym access_results = "(BACnetObject \<times> property_records) list"

function readAccessResults_properties ::
  "property_records \<Rightarrow> reader \<Rightarrow> error + (property_records \<times> reader)" where
  "readAccessResults_properties records r =
     bindE (wrap ''failed to read tag inside property list'' (ReadByte r)) (\<lambda>(tag, r1).
       if tag = 0x1F then Inr (records, r1)
       else if tag \<noteq> 0x29 then Inl (Errorf ''expected property identifier tag 0x29'' None)
       else
         bindE (wrap ''failed to read property identifier'' (binary_Read_byte r1)) (\<lambda>(propID, r2).
         bindE (wrap ''failed to read opening tag for property value'' (ReadByte r2)) (\<lambda>(tag, r3).
           if tag \<noteq> 0x4E then Inl (Errorf ''expected opening tag 0x4E for property value'' None)
           else
             bindE (wrap ''failed to decode application value for prop''
                      (decodeApplicationValue r3)) (\<lambda>(val, r4).
             bindE (wrap ''failed to read closing tag for property value'' (ReadByte r4))
               (\<lambda>(tag, r5).
               if tag \<noteq> 0x4F
               then Inl (Errorf ''expected closing tag 0x4F for property value'' None)
               else readAccessResults_properties (records @ [(ucast propID, val)]) r5)))))"
  by pat_completeness auto
termination
  apply (relation "measure (\<lambda>(records, r). length r)")
   apply simp
  apply (auto dest!: ReadByte_length binary_Read_byte_length decodeApplicationValue_length)
  done

declare readAccessResults_properties.simps [simp del]

lemma readAccessResults_properties_length:
  "readAccessResults_properties records r = Inr (records', r')
   \<Longrightarrow> length r' < length r"
proof (induction records r arbitrary: records' r'
    rule: readAccessResults_properties.induct)
  case (1 records r)
  from "1.prems" obtain tag r1 where rb: "ReadByte r = Inr (tag, r1)"
    and body: "(if tag = 0x1F then Inr (records, r1)
       else if tag \<noteq> 0x29 then Inl (Errorf ''expected property identifier tag 0x29'' None)
       else
         bindE (wrap ''failed to read property identifier'' (binary_Read_byte r1)) (\<lambda>(propID, r2).
         bindE (wrap ''failed to read opening tag for property value'' (ReadByte r2)) (\<lambda>(tag, r3).
           if tag \<noteq> 0x4E then Inl (Errorf ''expected opening tag 0x4E for property value'' None)
           else
             bindE (wrap ''failed to decode application value for prop''
                      (decodeApplicationValue r3)) (\<lambda>(val, r4).
             bindE (wrap ''failed to read closing tag for property value'' (ReadByte r4))
               (\<lambda>(tag, r5).
               if tag \<noteq> 0x4F
               then Inl (Errorf ''expected closing tag 0x4F for property value'' None)
               else readAccessResults_properties
                      (records @ [(ucast propID, val)]) r5)))))
        = Inr (records', r')"
    by (subst (asm) readAccessResults_properties.simps)
      (auto simp add: bindE_Inr_iff)
  show ?case
  proof (cases "tag = 0x1F")
    case True
    with body rb show ?thesis by (auto dest: ReadByte_length)
  next
    case False
    with body have t29: "\<not> tag \<noteq> 0x29" by (auto split: if_splits)
    with body False obtain propID r2 tag3 r3 val r4 tag5 r5 where
      p: "binary_Read_byte r1 = Inr (propID, r2)" and
      o: "ReadByte r2 = Inr (tag3, r3)" and t3: "\<not> tag3 \<noteq> 0x4E" and
      d: "decodeApplicationValue r3 = Inr (val, r4)" and
      c: "ReadByte r4 = Inr (tag5, r5)" and t5: "\<not> tag5 \<noteq> 0x4F" and
      rec: "readAccessResults_properties
              (records @ [(ucast propID, val)]) r5 = Inr (records', r')"
      by (auto simp add: bindE_Inr_iff split: if_splits)
    have wrb: "wrap ''failed to read tag inside property list'' (ReadByte r) = Inr (tag, r1)"
      using rb by simp
    have wp: "wrap ''failed to read property identifier'' (binary_Read_byte r1) = Inr (propID, r2)"
      using p by simp
    have wo: "wrap ''failed to read opening tag for property value'' (ReadByte r2) = Inr (tag3, r3)"
      using o by simp
    have wd: "wrap ''failed to decode application value for prop'' (decodeApplicationValue r3)
                = Inr (val, r4)"
      using d by simp
    have wc: "wrap ''failed to read closing tag for property value'' (ReadByte r4) = Inr (tag5, r5)"
      using c by simp
    have "length r' < length r5"
      by (rule "1.IH" [OF wrb refl False t29 wp refl wo refl t3 wd refl wc refl t5 rec])
    with ReadByte_length [OF rb] binary_Read_byte_length [OF p] ReadByte_length [OF o]
      decodeApplicationValue_length [OF d] ReadByte_length [OF c]
    show ?thesis by simp
  qed
qed

function readAccessResults_objects ::
  "access_results \<Rightarrow> reader \<Rightarrow> error + access_results" where
  "readAccessResults_objects accessResults r =
     (if length r > 0 then
        (case ReadByte r of
           Inl e \<Rightarrow> Inr accessResults
         | Inr (tag, r1) \<Rightarrow>
             if tag \<noteq> 0x0C then Inl (Errorf ''expected object identifier tag 0x0C'' None)
             else
               bindE (wrap ''failed to read object identifier'' (binary_Read_uint32 r1))
                 (\<lambda>(objectIdentifier, r2).
               bindE (wrap ''failed to read opening tag for property list'' (ReadByte r2))
                 (\<lambda>(tag, r3).
                 if tag \<noteq> 0x1E
                 then Inl (Errorf ''expected opening tag 0x1E for property list'' None)
                 else
                   bindE (readAccessResults_properties [] r3) (\<lambda>(records, r4).
                     readAccessResults_objects
                       (accessResults @ [(unpackObjectIdentifier objectIdentifier, records)])
                       r4))))
      else Inr accessResults)"
  by pat_completeness auto
termination
  apply (relation "measure (\<lambda>(accessResults, r). length r)")
   apply simp
  apply (auto dest!: ReadByte_length binary_Read_uint32_length
      readAccessResults_properties_length)
  done

declare readAccessResults_objects.simps [simp del]

text \<open>
  The body starts after the 4 octets of the BVLC header, the 2 of the NPDU and the 3 of
  the complex-ACK header (type, invoke ID, service choice).
\<close>

definition readAccessResults :: "byte list \<Rightarrow> error + access_results" where
  "readAccessResults data = readAccessResults_objects [] (drop 9 data)"

text \<open>
  The object identifiers and the property identifiers that appear in a list of
  read-access-results, and the property identifiers held by a decoded result map.
\<close>

definition bodyObjects :: "access_results \<Rightarrow> BACnetObject set" where
  "bodyObjects accessResults = set (map fst accessResults)"

definition bodyPropertyIDs :: "access_results \<Rightarrow> uint32 set" where
  "bodyPropertyIDs accessResults = \<Union> (set (map (\<lambda>(obj, records). set (map fst records)) accessResults))"

definition resultPropertyIDs :: "results \<Rightarrow> uint32 set" where
  "resultPropertyIDs res = \<Union> (dom ` ran res)"

text \<open>
  The last read-access-result of an object identifier in the body, if it has one.
\<close>

definition lastAccessResult :: "access_results \<Rightarrow> BACnetObject \<Rightarrow> property_records option" where
  "lastAccessResult accessResults obj = map_of (rev accessResults) obj"

text \<open>
  The maps that a list of property records and a list of read-access-results stand for
  when each record is stored under its key in the order of the body, a later record
  replacing an earlier one with the same key.
\<close>

definition propertiesOf :: "property_records \<Rightarrow> properties" where
  "propertiesOf records = map_of (rev records)"

definition resultsOf :: "access_results \<Rightarrow> results" where
  "resultsOf accessResults =
     map_of (rev (map (\<lambda>(obj, records). (obj, propertiesOf records)) accessResults))"

section \<open>Properties of the codec\<close>

lemma unat_uint32_minus_one: "unat (0 - 1 :: uint32) = 4294967295"
  by (simp add: unsigned_minus_1_eq_mask mask_eq_exp_minus_1)

lemma be_uint32_put_uint32: "be_uint32 (put_uint32 w) = w"
  unfolding be_uint32_def put_uint32_def
  apply simp
  apply (rule bit_word_eqI)
  subgoal for n
    apply (cases "n < 8")
     apply (auto simp add: bit_simps)[1]
    apply (cases "n < 16")
     apply (auto simp add: bit_simps)[1]
    apply (cases "n < 24")
     apply (auto simp add: bit_simps)[1]
    apply (auto simp add: bit_simps)[1]
    done
  done

lemma binary_Read_uint32_put_uint32:
  "binary_Read_uint32 (put_uint32 w @ rest) = Inr (w, rest)"
proof -
  have "ReadFull 4 (put_uint32 w @ rest) = Inr (put_uint32 w, rest)"
    by (simp add: ReadFull_def put_uint32_def)
  then show ?thesis
    by (simp add: binary_Read_uint32_def be_uint32_put_uint32)
qed

lemma unpack_packObjectIdentifier:
  assumes "Type obj \<le> 1023" and "Instance obj \<le> 0x3FFFFF"
  shows "unpackObjectIdentifier (packObjectIdentifier obj) = obj"
proof -
  have t: "Type obj < 2 ^ 10"
    using assms(1) by (simp add: word_less_nat_alt word_le_nat_alt)
  have i: "Instance obj < 2 ^ 22"
    using assms(2) by (simp add: word_less_nat_alt word_le_nat_alt)
  have tb: "\<not> bit (Type obj) n" if "10 \<le> n" for n
    using t that by (metis bit_take_bit_iff less_mask_eq not_le take_bit_eq_mask)
  have ib: "\<not> bit (Instance obj) n" if "22 \<le> n" for n
    using i that by (metis bit_take_bit_iff less_mask_eq not_le take_bit_eq_mask)
  have hi: "drop_bit 22 (push_bit 22 (Type obj) OR Instance obj) = Type obj"
    apply (rule bit_word_eqI)
    subgoal for n
      using tb[of n] ib[of "22 + n"] by (cases "n < 10") (auto simp add: bit_simps)
    done
  have m: "(0x3FFFFF :: uint32) = mask 22"
    by (simp add: mask_eq_exp_minus_1)
  have lo: "(push_bit 22 (Type obj) OR Instance obj) AND 0x3FFFFF = Instance obj"
    unfolding m
    apply (rule bit_word_eqI)
    subgoal for n
      using ib[of n] by (cases "n < 22") (auto simp add: bit_simps)
    done
  show ?thesis
    unfolding unpackObjectIdentifier_def packObjectIdentifier_def hi lo by simp
qed

text \<open>
  C9. Every object identifier with type in 0..1023 and instance in 0..4194303 survives
  packing as \<open>(type << 22) | instance\<close>, writing the word big-endian and decoding
  it back (as a bare word, and as the application-tagged value \<open>C4 ..\<close> read by
  \<open>decodeApplicationValue\<close>); the largest identifier (1023, 0x3FFFFF) packs to
  0xFFFFFFFF and decodes back to itself.
\<close>

theorem objectIdentifier_roundtrip:
  assumes "Type obj \<le> 1023" and "Instance obj \<le> 0x3FFFFF"
  shows "unpackObjectIdentifier (be_uint32 (put_uint32 (packObjectIdentifier obj))) = obj
    \<and> decodeApplicationValue (0xC4 # put_uint32 (packObjectIdentifier obj) @ rest)
          = Inr (VObject obj, rest)
    \<and> packObjectIdentifier \<lparr>Type = 1023, Instance = 0x3FFFFF\<rparr> = 0xFFFFFFFF
    \<and> unpackObjectIdentifier 0xFFFFFFFF = \<lparr>Type = 1023, Instance = 0x3FFFFF\<rparr>"
proof -
  have a: "unpackObjectIdentifier (be_uint32 (put_uint32 (packObjectIdentifier obj))) = obj"
    using assms by (simp add: be_uint32_put_uint32 unpack_packObjectIdentifier)
  have "binary_Read_uint32 (put_uint32 (packObjectIdentifier obj) @ rest)
          = Inr (packObjectIdentifier obj, rest)"
    by (rule binary_Read_uint32_put_uint32)
  then have b: "decodeApplicationValue (0xC4 # put_uint32 (packObjectIdentifier obj) @ rest)
               = Inr (VObject obj, rest)"
    using assms
    by (simp add: decodeApplicationValue_def readTagAndLength_def ReadByte_def
        unpack_packObjectIdentifier)
  have c: "packObjectIdentifier \<lparr>Type = 1023, Instance = 0x3FFFFF\<rparr> = 0xFFFFFFFF"
    by (simp add: packObjectIdentifier_def)
  have d: "unpackObjectIdentifier 0xFFFFFFFF = \<lparr>Type = 1023, Instance = 0x3FFFFF\<rparr>"
    by (simp add: unpackObjectIdentifier_def)
  from a b c d show ?thesis by blast
qed

theorem objectIdentifier_roundtrip_witness:
  "Type \<lparr>Type = 8, Instance = 1234\<rparr> \<le> 1023
   \<and> Instance \<lparr>Type = 8, Instance = 1234\<rparr> \<le> 0x3FFFFF
   \<and> unpackObjectIdentifier
        (be_uint32 (put_uint32 (packObjectIdentifier \<lparr>Type = 8, Instance = 1234\<rparr>)))
       = \<lparr>Type = 8, Instance = 1234\<rparr>
   \<and> put_uint32 (packObjectIdentifier \<lparr>Type = 8, Instance = 1234\<rparr>)
       = [0x02, 0x00, 0x04, 0xD2]"
  using objectIdentifier_roundtrip [of "\<lparr>Type = 8, Instance = 1234\<rparr>" "[]"]
  by (simp add: packObjectIdentifier_def put_uint32_def)

text \<open>
  C5 (as stated). The bytes \<open>85 04 8A\<close> are not decoded to a StatusFlags record: a
  length field of 5 announces an extended length octet, so \<open>04\<close> is taken as the
  length and \<open>8A\<close> as the count of unused bits, which is refused.
\<close>

theorem decode_85_04_8A_fails:
  "decodeApplicationValue [0x85, 0x04, 0x8A]
     = Inl (Errorf ''unexpected number of unused bits for Status_Flags'' None)"
  by (simp add: decodeApplicationValue_def readTagAndLength_def ReadByte_def
      decodeStatusFlags_def)

text \<open>
  C5 (amended). With the length in the tag octet (\<open>82 04 8A\<close>), or with the extended
  length octet present (\<open>85 02 04 8A\<close>), the unused-bit count \<open>04\<close> and the flags
  octet \<open>8A\<close> decode to the StatusFlags record inAlarm = 1, fault = 0,
  overridden = 1, outOfService = 0.
\<close>

theorem decode_StatusFlags_04_8A:
  "decodeApplicationValue [0x82, 0x04, 0x8A]
     = Inr (VStatusFlags \<lparr>InAlarm = True, Fault = False, Overridden = True,
                            OutOfService = False\<rparr>, [])
   \<and> decodeApplicationValue [0x85, 0x02, 0x04, 0x8A]
     = Inr (VStatusFlags \<lparr>InAlarm = True, Fault = False, Overridden = True,
                            OutOfService = False\<rparr>, [])"
  by (simp add: decodeApplicationValue_def readTagAndLength_def ReadByte_def
      decodeStatusFlags_def)

text \<open>
  C10. When the first tag octet has tag number 7 (CharacterString) and length field 0,
  the payload length \<open>lenVal - 1\<close> wraps to \<open>2^32 - 1\<close>, and on every input with
  fewer than \<open>2^32\<close> bytes after the tag octet (the encoding octet and the payload)
  \<open>decodeApplicationValue\<close> returns an error of package \<open>io\<close>, never a string.
\<close>

theorem decode_CharacterString_length_0:
  assumes "drop_bit 4 tag = 7" and "tag AND 0x0F = 0" and "length rest < 2 ^ 32"
  shows "unat ((ucast (tag AND 0x0F) :: uint32) - 1) = 2 ^ 32 - 1
    \<and> decodeApplicationValue (tag # rest)
          = Inl (if length rest \<le> 1 then EOF else ErrUnexpectedEOF)"
  using assms unat_uint32_minus_one
  by (auto simp add: decodeApplicationValue_def readTagAndLength_def ReadByte_def
      ReadFull_def split: list.splits)

theorem decode_CharacterString_length_0_witness:
  "drop_bit 4 (0x70 :: byte) = 7 \<and> (0x70 :: byte) AND 0x0F = 0
   \<and> length ([] :: byte list) < 2 ^ 32
   \<and> decodeApplicationValue [0x70] = Inl EOF"
  using decode_CharacterString_length_0 [of "0x70" "[]"] by simp

section \<open>Evaluation and success rules\<close>

text \<open>
  Rules that run the decoders on explicit bytes (one rule for the exhausted reader and
  one for a reader with a first byte, per loop), and the shape of the input on which
  each read succeeds.
\<close>

lemma bindE_Inl [simp]: "bindE (Inl e) f = Inl e"
  by (simp add: bindE_def)

lemma bindE_Inr [simp]: "bindE (Inr v) f = f v"
  by (simp add: bindE_def)

lemma bindE_weak_cong: "x = y \<Longrightarrow> bindE x f = bindE y f"
  by simp

lemma wrap_simps [simp]:
  "wrap msg (Inl e) = Inl (Errorf msg (Some e))"
  "wrap msg (Inr v) = Inr v"
  by (simp_all add: wrap_def)

lemma ReadByte_simps [simp]:
  "ReadByte [] = Inl EOF"
  "ReadByte (b # r) = Inr (b, r)"
  by (simp_all add: ReadByte_def)

lemma ReadByte_ignore_simps [simp]:
  "ReadByte_ignore [] = (0, [])"
  "ReadByte_ignore (b # r) = (b, r)"
  by (simp_all add: ReadByte_ignore_def)

lemma parseObjectPropertyList_values_Nil:
  "parseObjectPropertyList_values vs [] = Inl EOF"
  by (subst parseObjectPropertyList_values.simps) simp

lemma parseObjectPropertyList_values_Cons:
  "parseObjectPropertyList_values vs (b # r) =
     (if b = 0x4F then Inr (vs, r)
      else bindE (wrap ''failed to decode application value for prop''
                    (decodeApplicationValue (b # r)))
             (\<lambda>(val, r2). parseObjectPropertyList_values (vs @ [val]) r2))"
  by (subst parseObjectPropertyList_values.simps) simp

lemmas reader_eval = ReadFull_def binary_Read_uint32_def binary_Read_uint16_def
  binary_Read_byte_def binary_Read_BVLCHeader_def binary_Read_NPDU_def
  be_uint32_def be_uint16_def readTagAndLength_def decodeStatusFlags_def
  decodeApplicationValue_def unpackObjectIdentifier_def

lemma parseObjectPropertyList_properties_Nil:
  "parseObjectPropertyList_properties ps [] =
     Inl (Errorf ''failed to read tag inside property list'' (Some EOF))"
  by (subst parseObjectPropertyList_properties.simps) simp

lemma parseObjectPropertyList_properties_Cons:
  "parseObjectPropertyList_properties ps (tag # r1) =
     (if tag = 0x1F then Inr (ps, r1)
      else if tag \<noteq> 0x29 then Inl (Errorf ''expected property identifier tag 0x29'' None)
      else
        bindE (wrap ''failed to read property identifier'' (binary_Read_byte r1)) (\<lambda>(propID, r2).
        bindE (wrap ''failed to read opening tag for property value'' (ReadByte r2)) (\<lambda>(tag, r3).
          if tag \<noteq> 0x4E then Inl (Errorf ''expected opening tag 0x4E for property value'' None)
          else
            bindE (parseObjectPropertyList_values [] r3) (\<lambda>(values, r4).
              parseObjectPropertyList_properties
                (ps @ [\<lparr>PropertyID = ucast propID,
                         Value = (if length values = 1 then values ! 0 else VList values)\<rparr>])
                r4))))"
  by (subst parseObjectPropertyList_properties.simps) simp

lemma parseObjectPropertyList_objects_Nil:
  "parseObjectPropertyList_objects ps [] = Inr ps"
  by (subst parseObjectPropertyList_objects.simps) simp

lemma parseObjectPropertyList_objects_Cons:
  "parseObjectPropertyList_objects ps (tag # r1) =
     (if tag \<noteq> 0x0C then Inl (Errorf ''expected object identifier tag 0x0C'' None)
      else
        bindE (wrap ''failed to read object identifier'' (binary_Read_uint32 r1))
          (\<lambda>(objectIdentifier, r2).
        bindE (wrap ''failed to read opening tag for property list'' (ReadByte r2))
          (\<lambda>(tag, r3).
          if tag \<noteq> 0x1E
          then Inl (Errorf ''expected opening tag 0x1E for property list'' None)
          else
            bindE (parseObjectPropertyList_properties ps r3)
              (\<lambda>(allProperties', r4). parseObjectPropertyList_objects allProperties' r4))))"
  by (subst parseObjectPropertyList_objects.simps) simp

lemma parseReadPropertyMultipleResponse_properties_Nil:
  "parseReadPropertyMultipleResponse_properties ps [] =
     Inl (Errorf ''failed to read tag inside property list'' (Some EOF))"
  by (subst parseReadPropertyMultipleResponse_properties.simps) simp

lemma parseReadPropertyMultipleResponse_properties_Cons:
  "parseReadPropertyMultipleResponse_properties ps (tag # r1) =
     (if tag = 0x1F then Inr (ps, r1)
      else if tag \<noteq> 0x29 then Inl (Errorf ''expected property identifier tag 0x29'' None)
      else
        bindE (wrap ''failed to read property identifier'' (binary_Read_byte r1)) (\<lambda>(propID, r2).
        bindE (wrap ''failed to read opening tag for property value'' (ReadByte r2)) (\<lambda>(tag, r3).
          if tag \<noteq> 0x4E then Inl (Errorf ''expected opening tag 0x4E for property value'' None)
          else
            bindE (wrap ''failed to decode application value for prop''
                     (decodeApplicationValue r3)) (\<lambda>(val, r4).
            bindE (wrap ''failed to read closing tag for property value'' (ReadByte r4))
              (\<lambda>(tag, r5).
              if tag \<noteq> 0x4F
              then Inl (Errorf ''expected closing tag 0x4F for property value'' None)
              else parseReadPropertyMultipleResponse_properties
                     (ps(ucast propID \<mapsto> val)) r5)))))"
  by (subst parseReadPropertyMultipleResponse_properties.simps) simp

lemma parseReadPropertyMultipleResponse_objects_Nil:
  "parseReadPropertyMultipleResponse_objects res [] = Inr res"
  by (subst parseReadPropertyMultipleResponse_objects.simps) simp

lemma parseReadPropertyMultipleResponse_objects_Cons:
  "parseReadPropertyMultipleResponse_objects res (tag # r1) =
     (if tag \<noteq> 0x0C then Inl (Errorf ''expected object identifier tag 0x0C'' None)
      else
        bindE (wrap ''failed to read object identifier'' (binary_Read_uint32 r1))
          (\<lambda>(objectIdentifier, r2).
        bindE (wrap ''failed to read opening tag for property list'' (ReadByte r2))
          (\<lambda>(tag, r3).
          if tag \<noteq> 0x1E
          then Inl (Errorf ''expected opening tag 0x1E for property list'' None)
          else
            bindE (parseReadPropertyMultipleResponse_properties Map.empty r3)
              (\<lambda>(objectProperties, r4).
                 parseReadPropertyMultipleResponse_objects
                   (res(unpackObjectIdentifier objectIdentifier \<mapsto> objectProperties)) r4))))"
  by (subst parseReadPropertyMultipleResponse_objects.simps) simp

lemma readAccessResults_properties_Nil:
  "readAccessResults_properties ps [] =
     Inl (Errorf ''failed to read tag inside property list'' (Some EOF))"
  by (subst readAccessResults_properties.simps) simp

lemma readAccessResults_properties_Cons:
  "readAccessResults_properties ps (tag # r1) =
     (if tag = 0x1F then Inr (ps, r1)
      else if tag \<noteq> 0x29 then Inl (Errorf ''expected property identifier tag 0x29'' None)
      else
        bindE (wrap ''failed to read property identifier'' (binary_Read_byte r1)) (\<lambda>(propID, r2).
        bindE (wrap ''failed to read opening tag for property value'' (ReadByte r2)) (\<lambda>(tag, r3).
          if tag \<noteq> 0x4E then Inl (Errorf ''expected opening tag 0x4E for property value'' None)
          else
            bindE (wrap ''failed to decode application value for prop''
                     (decodeApplicationValue r3)) (\<lambda>(val, r4).
            bindE (wrap ''failed to read closing tag for property value'' (ReadByte r4))
              (\<lambda>(tag, r5).
              if tag \<noteq> 0x4F
              then Inl (Errorf ''expected closing tag 0x4F for property value'' None)
              else readAccessResults_properties (ps @ [(ucast propID, val)]) r5)))))"
  by (subst readAccessResults_properties.simps) simp

lemma readAccessResults_objects_Nil:
  "readAccessResults_objects res [] = Inr res"
  by (subst readAccessResults_objects.simps) simp

lemma readAccessResults_objects_Cons:
  "readAccessResults_objects res (tag # r1) =
     (if tag \<noteq> 0x0C then Inl (Errorf ''expected object identifier tag 0x0C'' None)
      else
        bindE (wrap ''failed to read object identifier'' (binary_Read_uint32 r1))
          (\<lambda>(objectIdentifier, r2).
        bindE (wrap ''failed to read opening tag for property list'' (ReadByte r2))
          (\<lambda>(tag, r3).
          if tag \<noteq> 0x1E
          then Inl (Errorf ''expected opening tag 0x1E for property list'' None)
          else
            bindE (readAccessResults_properties [] r3) (\<lambda>(records, r4).
              readAccessResults_objects
                (res @ [(unpackObjectIdentifier objectIdentifier, records)]) r4))))"
  by (subst readAccessResults_objects.simps) simp

lemma parseCOVNotification_values_Nil:
  "parseCOVNotification_values vs [] =
     Inl (Errorf ''failed to read tag inside property values'' (Some EOF))"
  by (subst parseCOVNotification_values.simps) simp

lemma parseCOVNotification_values_Cons:
  "parseCOVNotification_values vs (tag # r1) =
     (if tag = 0x4F then Inr vs
      else if tag \<noteq> 0x09 then Inl (Errorf ''expected property identifier tag 0x09'' None)
      else
        bindE (wrap ''failed to read property identifier'' (binary_Read_byte r1)) (\<lambda>(propID, r2).
        bindE (wrap ''failed to read opening tag for property value'' (ReadByte r2)) (\<lambda>(tag, r3).
          if tag \<noteq> 0x2E then Inl (Errorf ''expected opening tag 0x2E for property value'' None)
          else
            bindE (wrap ''failed to decode application value for prop''
                     (decodeApplicationValue r3)) (\<lambda>(val, r4).
            bindE (wrap ''failed to read closing tag for property value'' (ReadByte r4))
              (\<lambda>(tag, r5).
              if tag \<noteq> 0x2F
              then Inl (Errorf ''expected closing tag 0x2F for property value'' None)
              else parseCOVNotification_values
                     (vs @ [\<lparr>PropertyID = ucast propID, Value = val\<rparr>]) r5)))))"
  by (subst parseCOVNotification_values.simps) simp

lemmas loop_eval =
  parseObjectPropertyList_values_Nil parseObjectPropertyList_values_Cons
  parseObjectPropertyList_properties_Nil parseObjectPropertyList_properties_Cons
  parseObjectPropertyList_objects_Nil parseObjectPropertyList_objects_Cons
  parseReadPropertyMultipleResponse_properties_Nil
  parseReadPropertyMultipleResponse_properties_Cons
  parseReadPropertyMultipleResponse_objects_Nil parseReadPropertyMultipleResponse_objects_Cons
  readAccessResults_properties_Nil readAccessResults_properties_Cons
  readAccessResults_objects_Nil readAccessResults_objects_Cons
  parseCOVNotification_values_Nil parseCOVNotification_values_Cons

lemma bindE_InrE:
  assumes "bindE x f = Inr w"
  obtains v where "x = Inr v" and "f v = Inr w"
  using assms by (auto simp add: bindE_Inr_iff)

lemma ReadByte_Inr_iff: "ReadByte r = Inr (b, r') \<longleftrightarrow> r = b # r'"
  by (cases r) auto

lemma ReadFull_pos_Inr_iff:
  "0 < n \<Longrightarrow> ReadFull n r = Inr (bs, r') \<longleftrightarrow> r = bs @ r' \<and> length bs = n"
  by (auto simp add: ReadFull_def)

lemma length_4_iff: "length bs = 4 \<longleftrightarrow> (\<exists>a b c d. bs = [a, b, c, d])"
  by (auto simp add: numeral_eq_Suc length_Suc_conv)

lemma length_2_iff: "length bs = 2 \<longleftrightarrow> (\<exists>a b. bs = [a, b])"
  by (auto simp add: numeral_eq_Suc length_Suc_conv)

lemma length_1_iff: "length bs = Suc 0 \<longleftrightarrow> (\<exists>a. bs = [a])"
  by (auto simp add: length_Suc_conv)

lemma ReadFull_4_Inr_iff:
  "ReadFull 4 r = Inr (bs, r') \<longleftrightarrow> (\<exists>a b c d. bs = [a, b, c, d] \<and> r = a # b # c # d # r')"
  by (auto simp add: ReadFull_pos_Inr_iff length_4_iff)

lemma ReadFull_2_Inr_iff:
  "ReadFull 2 r = Inr (bs, r') \<longleftrightarrow> (\<exists>a b. bs = [a, b] \<and> r = a # b # r')"
  by (auto simp add: ReadFull_pos_Inr_iff length_2_iff)

lemma ReadFull_1_Inr_iff:
  "ReadFull (Suc 0) r = Inr (bs, r') \<longleftrightarrow> (\<exists>a. bs = [a] \<and> r = a # r')"
  by (auto simp add: ReadFull_pos_Inr_iff length_1_iff)

lemma binary_Read_uint32_Inr_iff:
  "binary_Read_uint32 r = Inr (v, r') \<longleftrightarrow>
     (\<exists>a b c d. r = a # b # c # d # r' \<and> v = be_uint32 [a, b, c, d])"
proof -
  have step: "binary_Read_uint32 r = Inr (v, r') \<longleftrightarrow> (\<exists>bs. ReadFull 4 r = Inr (bs, r') \<and> v = be_uint32 bs)"
    by (cases "ReadFull 4 r") (auto simp add: binary_Read_uint32_def)
  show ?thesis unfolding step ReadFull_4_Inr_iff by auto
qed

lemma binary_Read_uint16_Inr_iff:
  "binary_Read_uint16 r = Inr (v, r') \<longleftrightarrow>
     (\<exists>a b. r = a # b # r' \<and> v = be_uint16 [a, b])"
proof -
  have step: "binary_Read_uint16 r = Inr (v, r') \<longleftrightarrow> (\<exists>bs. ReadFull 2 r = Inr (bs, r') \<and> v = be_uint16 bs)"
    by (cases "ReadFull 2 r") (auto simp add: binary_Read_uint16_def)
  show ?thesis unfolding step ReadFull_2_Inr_iff by auto
qed

lemma binary_Read_byte_Inr_iff:
  "binary_Read_byte r = Inr (v, r') \<longleftrightarrow> r = v # r'"
proof -
  have step: "binary_Read_byte r = Inr (v, r') \<longleftrightarrow> (\<exists>bs. ReadFull (Suc 0) r = Inr (bs, r') \<and> v = hd bs)"
    by (cases "ReadFull 1 r") (auto simp add: binary_Read_byte_def)
  show ?thesis unfolding step ReadFull_1_Inr_iff by auto
qed

lemma binary_Read_BVLCHeader_Inr_iff:
  "binary_Read_BVLCHeader r = Inr (h, r') \<longleftrightarrow>
     (\<exists>a b c d. r = a # b # c # d # r'
        \<and> h = \<lparr>BVLCType = a, Function = b, Length = be_uint16 [c, d]\<rparr>)"
proof -
  have step: "binary_Read_BVLCHeader r = Inr (h, r') \<longleftrightarrow> (\<exists>bs. ReadFull 4 r = Inr (bs, r') \<and> h = \<lparr>BVLCType = bs ! 0, Function = bs ! 1, Length = be_uint16 (drop 2 bs)\<rparr>)"
    by (cases "ReadFull 4 r") (auto simp add: binary_Read_BVLCHeader_def)
  show ?thesis unfolding step ReadFull_4_Inr_iff by auto
qed

lemma binary_Read_NPDU_Inr_iff:
  "binary_Read_NPDU r = Inr (h, r') \<longleftrightarrow>
     (\<exists>a b. r = a # b # r' \<and> h = \<lparr>Version = a, Control = b\<rparr>)"
proof -
  have step: "binary_Read_NPDU r = Inr (h, r') \<longleftrightarrow> (\<exists>bs. ReadFull 2 r = Inr (bs, r') \<and> h = \<lparr>Version = bs ! 0, Control = bs ! 1\<rparr>)"
    by (cases "ReadFull 2 r") (auto simp add: binary_Read_NPDU_def)
  show ?thesis unfolding step ReadFull_2_Inr_iff by auto
qed

lemmas reader_Inr_iff = ReadByte_Inr_iff binary_Read_uint32_Inr_iff
  binary_Read_uint16_Inr_iff binary_Read_byte_Inr_iff binary_Read_BVLCHeader_Inr_iff
  binary_Read_NPDU_Inr_iff


lemma drop_6_shape:
  assumes "8 \<le> length (data :: byte list)"
  shows "\<exists>r2. drop 6 data = data ! 6 # data ! 7 # r2"
proof -
  have l: "2 \<le> length (drop 6 data)" using assms by simp
  then obtain a b r2 where d: "drop 6 data = a # b # r2"
    by (cases "drop 6 data"; cases "tl (drop 6 data)") auto
  have "data ! 6 = drop 6 data ! 0" "data ! 7 = drop 6 data ! 1"
    using assms by simp_all
  with d show ?thesis by simp
qed

section \<open>Request builders\<close>

lemma confirmed_requests_carry_invokeID:
  "drop 6 (sent (GetObjectList m conn device)) ! 2 = allocated (GetObjectList m conn device)"
  "drop 6 (sent (GetObjectAllPropertyList m conn device object)) ! 2
     = allocated (GetObjectAllPropertyList m conn device object)"
  "drop 6 (sent (ReadSpecificPropertiesFromObject m conn device object propertyIDs)) ! 2
     = allocated (ReadSpecificPropertiesFromObject m conn device object propertyIDs)"
  "drop 6 (sent (sendSubscribeCOVRequest m conn device object subscriber confirmed lifetime)) ! 2
     = allocated (sendSubscribeCOVRequest m conn device object subscriber confirmed lifetime)"
  by (simp_all add: GetObjectList_def GetObjectAllPropertyList_def
      ReadSpecificPropertiesFromObject_def sendSubscribeCOVRequest_def Next_def
      confirmedRequestDatagram_def binary_Write_BVLCHeader_def binary_Write_NPDU_def
      put_uint16_def bacnet_consts Let_def)

text \<open>
  C1 (the code at the failing input). \<open>ReadPropertiesFromMultipleObjects\<close> takes an
  invoke ID from \<open>Next\<close>, but the third octet of its APDU is the service choice
  \<open>0x0E\<close>, whatever the allocator returned: on a fresh allocator \<open>Next\<close> returns 1
  and the datagram for the object (AnalogInput, 3) and property 85 has no octet
  holding it.
\<close>

theorem ReadPropertiesFromMultipleObjects_omits_invokeID:
  "allocated (ReadPropertiesFromMultipleObjects m conn device objects propertyID) = fst (Next m)
   \<and> take 3 (drop 6 (sent (ReadPropertiesFromMultipleObjects m conn device objects propertyID)))
       = [0x02, 0x75, SERVICE_CONFIRMED_READ_PROPERTY_MULTIPLE]
   \<and> allocated (ReadPropertiesFromMultipleObjects \<lparr>lastID = 0\<rparr> conn device
        [\<lparr>Type = OBJECT_ANALOG_INPUT, Instance = 3\<rparr>] 85) = 1
   \<and> sent (ReadPropertiesFromMultipleObjects \<lparr>lastID = 0\<rparr> conn device
        [\<lparr>Type = OBJECT_ANALOG_INPUT, Instance = 3\<rparr>] 85)
       = [0x81, 0x0A, 0x00, 0x12, 0x01, 0x04,
          0x02, 0x75, 0x0E, 0x0C, 0x00, 0x00, 0x00, 0x03, 0x1E, 0x09, 0x55, 0x1F]"
  by (simp add: ReadPropertiesFromMultipleObjects_def Next_def confirmedRequestDatagram_def
      binary_Write_BVLCHeader_def binary_Write_NPDU_def put_uint16_def put_uint32_def
      packObjectIdentifier_def bacnet_consts Let_def)

text \<open>
  C8. For lifetime 60, subscriber process 123, unconfirmed notifications and the
  monitored object (AnalogInput, 3), the datagram of \<open>sendSubscribeCOVRequest\<close> is
  the BVLC and NPDU headers, the four octets of the confirmed-request header and then
  \<open>09 7B 1C 00 00 00 03 29 00 39 3C\<close>, with which the APDU ends.
\<close>

theorem sendSubscribeCOVRequest_apdu_tail:
  "sent (sendSubscribeCOVRequest m conn device
           \<lparr>Type = OBJECT_ANALOG_INPUT, Instance = 3\<rparr> 123 False 60)
     = [0x81, 0x0A, 0x00, 0x15, 0x01, 0x04] @ [0x02, 0x75, fst (Next m), 0x05]
       @ [0x09, 0x7B, 0x1C, 0x00, 0x00, 0x00, 0x03, 0x29, 0x00, 0x39, 0x3C]"
  by (simp add: sendSubscribeCOVRequest_def Next_def confirmedRequestDatagram_def
      binary_Write_BVLCHeader_def binary_Write_NPDU_def put_uint16_def put_uint32_def
      packObjectIdentifier_def bacnet_consts Let_def)

theorem sendSubscribeCOVRequest_apdu_tail_witness:
  "drop 10 (sent (sendSubscribeCOVRequest \<lparr>lastID = 0\<rparr>
       \<lparr>WriteTo_error = None, ReadFromUDP_result = ReadTimeout\<rparr>
       \<lparr>DeviceID = 1234, IPAddress = [192, 168, 1, 5], Port = 47808, MacAddress = [],
          MaxAPDU = 1476\<rparr>
       \<lparr>Type = OBJECT_ANALOG_INPUT, Instance = 3\<rparr> 123 False 60))
     = [0x09, 0x7B, 0x1C, 0x00, 0x00, 0x00, 0x03, 0x29, 0x00, 0x39, 0x3C]"
  using sendSubscribeCOVRequest_apdu_tail [of "\<lparr>lastID = 0\<rparr>"
      "\<lparr>WriteTo_error = None, ReadFromUDP_result = ReadTimeout\<rparr>"
      "\<lparr>DeviceID = 1234, IPAddress = [192, 168, 1, 5], Port = 47808, MacAddress = [],
          MaxAPDU = 1476\<rparr>"]
  by simp

section \<open>Service decoders\<close>

text \<open>
  C4 (as stated). An I-Am whose object identifier has object type 0 (AnalogInput) and
  instance 1234 yields a DeviceInfo: \<open>parseIAm\<close> never looks at the type bits.
\<close>

theorem parseIAm_accepts_non_device:
  "parseIAm [0x81, 0x0B, 0x00, 0x15, 0x01, 0x00, 0x10, 0x00, 0xC4, 0x00, 0x00, 0x04, 0xD2,
             0x22, 0x05, 0xC4, 0x91, 0x00, 0x22, 0x00, 0x2A]
       \<lparr>IP = [192, 168, 1, 5], UDPPort = 47808\<rparr>
     = Inr \<lparr>DeviceID = 1234, IPAddress = [192, 168, 1, 5], Port = 47808, MacAddress = [],
            MaxAPDU = 1476\<rparr>
   \<and> Type (unpackObjectIdentifier (be_uint32 [0x00, 0x00, 0x04, 0xD2])) = OBJECT_ANALOG_INPUT
   \<and> OBJECT_ANALOG_INPUT \<noteq> OBJECT_DEVICE"
  by (simp add: parseIAm_def reader_eval bacnet_consts cong: bindE_weak_cong)

text \<open>
  C4 (amended). Whenever \<open>parseIAm\<close> yields a DeviceInfo, its device ID is the low
  22 bits of the object identifier (the four octets at offset 9); and every I-Am with
  the four application tags \<open>C4\<close>, \<open>22\<close>, \<open>91\<close>, \<open>22\<close> in order yields one,
  whatever the ten type bits of its object identifier are.
\<close>

theorem parseIAm_deviceID:
  "(parseIAm data addr = Inr d \<longrightarrow>
      DeviceID d = be_uint32 (take 4 (drop 9 data)) AND 0x3FFFFF)
   \<and> parseIAm ([BVLC_TYPE_BACNET_IP, function, l1, l2, version, control,
                 APDU_UNCONFIRMED_REQUEST, SERVICE_UNCONFIRMED_I_AM,
                 0xC4, o1, o2, o3, o4, 0x22, m1, m2, 0x91, s, 0x22, v1, v2] @ rest) addr
       = Inr \<lparr>DeviceID = be_uint32 [o1, o2, o3, o4] AND 0x3FFFFF, IPAddress = IP addr,
              Port = UDPPort addr, MacAddress = [], MaxAPDU = be_uint16 [m1, m2]\<rparr>"
proof -
  have a: "DeviceID d = be_uint32 (take 4 (drop 9 data)) AND 0x3FFFFF"
    if "parseIAm data addr = Inr d"
    using that unfolding parseIAm_def
    apply -
    apply (erule bindE_InrE)
    apply (clarsimp simp add: reader_Inr_iff ReadByte_ignore_def
        split: if_splits list.splits cong: bindE_weak_cong)
    apply (erule bindE_InrE)
    apply (clarsimp simp add: reader_Inr_iff ReadByte_ignore_def
        split: if_splits list.splits cong: bindE_weak_cong)
    apply ((erule bindE_InrE,
        clarsimp simp add: reader_Inr_iff split: if_splits cong: bindE_weak_cong)+)
    done
  have b: "parseIAm ([BVLC_TYPE_BACNET_IP, function, l1, l2, version, control,
                 APDU_UNCONFIRMED_REQUEST, SERVICE_UNCONFIRMED_I_AM,
                 0xC4, o1, o2, o3, o4, 0x22, m1, m2, 0x91, s, 0x22, v1, v2] @ rest) addr
       = Inr \<lparr>DeviceID = be_uint32 [o1, o2, o3, o4] AND 0x3FFFFF, IPAddress = IP addr,
              Port = UDPPort addr, MacAddress = [], MaxAPDU = be_uint16 [m1, m2]\<rparr>"
    by (simp add: parseIAm_def ReadFull_def binary_Read_uint32_def binary_Read_uint16_def
        binary_Read_byte_def binary_Read_BVLCHeader_def binary_Read_NPDU_def bacnet_consts
        cong: bindE_weak_cong)
  from a b show ?thesis by blast
qed

theorem parseIAm_deviceID_witness:
  "parseIAm [0x81, 0x0B, 0x00, 0x15, 0x01, 0x00, 0x10, 0x00, 0xC4, 0x02, 0x00, 0x04, 0xD2,
             0x22, 0x05, 0xC4, 0x91, 0x00, 0x22, 0x00, 0x2A]
       \<lparr>IP = [192, 168, 1, 5], UDPPort = 47808\<rparr>
     = Inr \<lparr>DeviceID = 1234, IPAddress = [192, 168, 1, 5], Port = 47808, MacAddress = [],
            MaxAPDU = 1476\<rparr>
   \<and> be_uint32 (take 4 (drop 9
         [0x81, 0x0B, 0x00, 0x15, 0x01, 0x00, 0x10, 0x00, 0xC4, 0x02, 0x00, 0x04, 0xD2,
          0x22, 0x05, 0xC4, 0x91, 0x00, 0x22, 0x00, 0x2A :: byte])) AND 0x3FFFFF = 1234"
  using parseIAm_deviceID [of
      "[0x81, 0x0B, 0x00, 0x15, 0x01, 0x00, 0x10, 0x00, 0xC4, 0x02, 0x00, 0x04, 0xD2,
        0x22, 0x05, 0xC4, 0x91, 0x00, 0x22, 0x00, 0x2A]"
      "\<lparr>IP = [192, 168, 1, 5], UDPPort = 47808\<rparr>"
      "\<lparr>DeviceID = 1234, IPAddress = [192, 168, 1, 5], Port = 47808, MacAddress = [],
         MaxAPDU = 1476\<rparr>"]
  by (simp add: parseIAm_def reader_eval bacnet_consts cong: bindE_weak_cong)

text \<open>
  C7. \<open>parseCOVNotification\<close> returns a notification only for a datagram of at least
  8 octets whose APDU type (octet 6, high nibble) is unconfirmed-request and whose
  service choice (octet 7) is \<open>0x02\<close>, Event-Notification; an unconfirmed request with
  any other service choice, \<open>0x01\<close> (COV-Notification) included, is a parse failure.
\<close>

theorem parseCOVNotification_service_choice:
  "(parseCOVNotification data = Inr n \<longrightarrow>
      8 \<le> length data \<and> (data ! 6) AND 0xF0 = APDU_UNCONFIRMED_REQUEST
      \<and> data ! 7 = SERVICE_UNCONFIRMED_EVENT_NOTIFICATION)
   \<and> (8 \<le> length data \<and> (data ! 6) AND 0xF0 = APDU_UNCONFIRMED_REQUEST
        \<and> data ! 7 \<noteq> SERVICE_UNCONFIRMED_EVENT_NOTIFICATION \<longrightarrow>
      parseCOVNotification data
        = Inl (Errorf ''not a COV Notification or Event Notification'' None))
   \<and> SERVICE_UNCONFIRMED_EVENT_NOTIFICATION = 0x02
   \<and> SERVICE_UNCONFIRMED_COV_NOTIFICATION = 0x01"
proof -
  have a: "8 \<le> length data \<and> (data ! 6) AND 0xF0 = APDU_UNCONFIRMED_REQUEST
      \<and> data ! 7 = SERVICE_UNCONFIRMED_EVENT_NOTIFICATION"
    if acc: "parseCOVNotification data = Inr n"
  proof -
    from acc obtain apduType service r2 where
      d: "drop 6 data = apduType # service # r2" and
      t: "apduType AND 0xF0 = APDU_UNCONFIRMED_REQUEST" and
      s: "service = SERVICE_UNCONFIRMED_EVENT_NOTIFICATION"
      unfolding parseCOVNotification_def
      apply -
      apply (erule bindE_InrE)
      apply (clarsimp simp add: ReadByte_Inr_iff split: if_splits cong: bindE_weak_cong)
      apply (erule bindE_InrE)
      apply (clarsimp simp add: ReadByte_Inr_iff split: if_splits cong: bindE_weak_cong)
      done
    have "2 \<le> length (drop 6 data)" using d by simp
    then have len: "8 \<le> length data" by simp
    have "data ! 6 = drop 6 data ! 0" and "data ! 7 = drop 6 data ! 1"
      using len by simp_all
    with d t s len show ?thesis by simp
  qed
  have b: "parseCOVNotification data
        = Inl (Errorf ''not a COV Notification or Event Notification'' None)"
    if len: "8 \<le> length data" and t: "(data ! 6) AND 0xF0 = APDU_UNCONFIRMED_REQUEST"
      and s: "data ! 7 \<noteq> SERVICE_UNCONFIRMED_EVENT_NOTIFICATION"
  proof -
    from drop_6_shape [OF len] obtain r2 where "drop 6 data = data ! 6 # data ! 7 # r2" ..
    then show ?thesis
      using t s unfolding parseCOVNotification_def by (simp cong: bindE_weak_cong)
  qed
  from a b show ?thesis by (auto simp add: bacnet_consts)
qed

theorem parseCOVNotification_service_choice_witness:
  "parseCOVNotification
     [0x81, 0x0A, 0x00, 0x1E, 0x01, 0x00, 0x10, 0x02, 0x09, 0x7B, 0x1C, 0x02, 0x00, 0x04, 0xD2,
      0x2C, 0x00, 0x00, 0x00, 0x03, 0x39, 0x3C, 0x4E, 0x09, 0x55, 0x2E, 0x21, 0x07, 0x2F, 0x4F]
     = Inr \<lparr>SubscriberProcessIdentifier = 123,
            InitiatingDeviceIdentifier = \<lparr>Type = 8, Instance = 1234\<rparr>,
            MonitoredObjectIdentifier = \<lparr>Type = 0, Instance = 3\<rparr>,
            TimeRemaining = 60,
            ListOfValues = [\<lparr>PropertyID = 85, Value = VUint32 7\<rparr>]\<rparr>
   \<and> parseCOVNotification
     [0x81, 0x0A, 0x00, 0x1E, 0x01, 0x00, 0x10, 0x01, 0x09, 0x7B, 0x1C, 0x02, 0x00, 0x04, 0xD2,
      0x2C, 0x00, 0x00, 0x00, 0x03, 0x39, 0x3C, 0x4E, 0x09, 0x55, 0x2E, 0x21, 0x07, 0x2F, 0x4F]
     = Inl (Errorf ''not a COV Notification or Event Notification'' None)"
  using parseCOVNotification_service_choice [of
      "[0x81, 0x0A, 0x00, 0x1E, 0x01, 0x00, 0x10, 0x01, 0x09, 0x7B, 0x1C, 0x02, 0x00, 0x04, 0xD2,
        0x2C, 0x00, 0x00, 0x00, 0x03, 0x39, 0x3C, 0x4E, 0x09, 0x55, 0x2E, 0x21, 0x07, 0x2F, 0x4F]"]
  by (simp add: parseCOVNotification_def loop_eval reader_eval binary_Read_uint32_ignore_def
      bacnet_consts cong: bindE_weak_cong)

text \<open>
  C6 (the code at the failing input). A ReadPropertyMultiple ACK whose property 85 has
  the two application values 1 and 2 between \<open>4E\<close> and \<open>4F\<close>:
  \<open>parseObjectPropertyList\<close> returns the list of the two values, and
  \<open>parseReadPropertyMultipleResponse\<close>, which reads one value and then expects the
  closing tag, returns an error.
\<close>

theorem two_values_in_bracket:
  "parseObjectPropertyList
     [0x81, 0x0A, 0x00, 0x18, 0x01, 0x00, 0x30, 0x01, 0x0E,
      0x0C, 0x00, 0x00, 0x00, 0x03, 0x1E, 0x29, 0x55, 0x4E, 0x21, 0x01, 0x21, 0x02, 0x4F, 0x1F] 1
     = Inr [\<lparr>PropertyID = 85, Value = VList [VUint32 1, VUint32 2]\<rparr>]
   \<and> parseReadPropertyMultipleResponse
     [0x81, 0x0A, 0x00, 0x18, 0x01, 0x00, 0x30, 0x01, 0x0E,
      0x0C, 0x00, 0x00, 0x00, 0x03, 0x1E, 0x29, 0x55, 0x4E, 0x21, 0x01, 0x21, 0x02, 0x4F, 0x1F] 1
     = Inl (Errorf ''expected closing tag 0x4F for property value'' None)"
  by (simp add: parseObjectPropertyList_def parseReadPropertyMultipleResponse_def
      readPropertyMultipleAckHeader_def loop_eval reader_eval bacnet_consts
      cong: bindE_weak_cong)

lemma one_value_in_bracket:
  "parseObjectPropertyList
     [0x81, 0x0A, 0x00, 0x16, 0x01, 0x00, 0x30, 0x01, 0x0E,
      0x0C, 0x00, 0x00, 0x00, 0x03, 0x1E, 0x29, 0x55, 0x4E, 0x21, 0x01, 0x4F, 0x1F] 1
     = Inr [\<lparr>PropertyID = 85, Value = VUint32 1\<rparr>]
   \<and> parseReadPropertyMultipleResponse
     [0x81, 0x0A, 0x00, 0x16, 0x01, 0x00, 0x30, 0x01, 0x0E,
      0x0C, 0x00, 0x00, 0x00, 0x03, 0x1E, 0x29, 0x55, 0x4E, 0x21, 0x01, 0x4F, 0x1F] 1
     = Inr [\<lparr>Type = 0, Instance = 3\<rparr> \<mapsto> [85 \<mapsto> VUint32 1]]"
  by (simp add: parseObjectPropertyList_def parseReadPropertyMultipleResponse_def
      readPropertyMultipleAckHeader_def loop_eval reader_eval bacnet_consts
      cong: bindE_weak_cong)

section \<open>The ReadPropertyMultiple ACK decoder and the read-access-results of the body\<close>

lemma propertiesOf_snoc:
  "propertiesOf (records @ [(k, v)]) = (propertiesOf records)(k \<mapsto> v)"
  by (simp add: propertiesOf_def)

lemma resultsOf_snoc:
  "resultsOf (accessResults @ [(obj, records)])
     = (resultsOf accessResults)(obj \<mapsto> propertiesOf records)"
  by (simp add: resultsOf_def)

lemma properties_refine:
  "parseReadPropertyMultipleResponse_properties (propertiesOf records) r
     = map_sum id (\<lambda>(records', r'). (propertiesOf records', r'))
         (readAccessResults_properties records r)"
proof (induction "length r" arbitrary: r records rule: less_induct)
  case less
  show ?case
    apply (subst parseReadPropertyMultipleResponse_properties.simps)
    apply (subst readAccessResults_properties.simps)
    using less
    apply (auto simp add: bindE_def wrap_def propertiesOf_snoc [symmetric]
        split: sum.splits prod.splits
        dest!: ReadByte_length binary_Read_byte_length decodeApplicationValue_length)
    done
qed

lemma properties_refine_empty:
  "parseReadPropertyMultipleResponse_properties Map.empty r
     = map_sum id (\<lambda>(records', r'). (propertiesOf records', r'))
         (readAccessResults_properties [] r)"
  using properties_refine [of "[]" r] by (simp add: propertiesOf_def)

lemma objects_refine:
  "parseReadPropertyMultipleResponse_objects (resultsOf accessResults) r
     = map_sum id resultsOf (readAccessResults_objects accessResults r)"
proof (induction "length r" arbitrary: r accessResults rule: less_induct)
  case less
  show ?case
    apply (subst parseReadPropertyMultipleResponse_objects.simps)
    apply (subst readAccessResults_objects.simps)
    using less
    apply (auto simp add: bindE_def wrap_def resultsOf_snoc [symmetric] properties_refine_empty
        split: sum.splits prod.splits
        dest!: ReadByte_length binary_Read_uint32_length readAccessResults_properties_length)
    done
qed

lemma readPropertyMultipleAckHeader_Inr:
  assumes "readPropertyMultipleAckHeader data expectedInvokeID = Inr r"
  shows "r = drop 9 data"
  using assms unfolding readPropertyMultipleAckHeader_def
  apply -
  apply (erule bindE_InrE)
  apply (clarsimp simp add: reader_Inr_iff cong: bindE_weak_cong)
  apply (erule bindE_InrE)
  apply (clarsimp simp add: reader_Inr_iff cong: bindE_weak_cong)
  apply (erule bindE_InrE)
  apply (clarsimp simp add: reader_Inr_iff ReadByte_ignore_def
      split: if_splits list.splits cong: bindE_weak_cong)
  apply (erule bindE_InrE)
  apply (clarsimp simp add: reader_Inr_iff split: if_splits)
  done

lemma parseReadPropertyMultipleResponse_refine:
  assumes "parseReadPropertyMultipleResponse data expectedInvokeID = Inr res"
  shows "\<exists>accessResults. readAccessResults data = Inr accessResults
           \<and> res = resultsOf accessResults"
proof -
  from assms obtain r where h: "readPropertyMultipleAckHeader data expectedInvokeID = Inr r"
    and o: "parseReadPropertyMultipleResponse_objects Map.empty r = Inr res"
    unfolding parseReadPropertyMultipleResponse_def by (auto simp add: bindE_Inr_iff)
  have r: "r = drop 9 data" using h by (rule readPropertyMultipleAckHeader_Inr)
  have "parseReadPropertyMultipleResponse_objects Map.empty r
          = map_sum id resultsOf (readAccessResults_objects [] r)"
    using objects_refine [of "[]" r] by (simp add: resultsOf_def)
  with o r show ?thesis
    by (cases "readAccessResults_objects [] (drop 9 data)") (auto simp add: readAccessResults_def)
qed

lemma dom_propertiesOf: "dom (propertiesOf records) = set (map fst records)"
  by (simp add: propertiesOf_def dom_map_of_conv_image_fst)

lemma dom_resultsOf: "dom (resultsOf accessResults) = bodyObjects accessResults"
  by (force simp add: resultsOf_def bodyObjects_def dom_map_of_conv_image_fst)

lemma resultsOf_lookup:
  "resultsOf accessResults obj = map_option propertiesOf (lastAccessResult accessResults obj)"
proof -
  have "map_of (map (\<lambda>(obj, records). (obj, propertiesOf records)) xs) obj
          = map_option propertiesOf (map_of xs obj)" for xs
    by (induction xs) auto
  from this [of "rev accessResults"] show ?thesis
    by (simp add: resultsOf_def lastAccessResult_def rev_map)
qed

lemma resultPropertyIDs_subset:
  "resultPropertyIDs (resultsOf accessResults) \<subseteq> bodyPropertyIDs accessResults"
proof
  fix p assume "p \<in> resultPropertyIDs (resultsOf accessResults)"
  then obtain obj props where l: "resultsOf accessResults obj = Some props" and p: "p \<in> dom props"
    by (auto simp add: resultPropertyIDs_def ran_def)
  from l obtain records where m: "map_of (rev accessResults) obj = Some records"
    and props: "props = propertiesOf records"
    by (auto simp add: resultsOf_lookup lastAccessResult_def)
  from m have "(obj, records) \<in> set accessResults"
    using map_of_SomeD by fastforce
  moreover from p props have "p \<in> set (map fst records)" by (simp add: dom_propertiesOf)
  ultimately show "p \<in> bodyPropertyIDs accessResults"
    by (force simp add: bodyPropertyIDs_def)
qed

lemma resultPropertyIDs_distinct:
  assumes "distinct (map fst accessResults)"
  shows "resultPropertyIDs (resultsOf accessResults) = bodyPropertyIDs accessResults"
proof
  show "resultPropertyIDs (resultsOf accessResults) \<subseteq> bodyPropertyIDs accessResults"
    by (rule resultPropertyIDs_subset)
  show "bodyPropertyIDs accessResults \<subseteq> resultPropertyIDs (resultsOf accessResults)"
  proof
    fix p assume "p \<in> bodyPropertyIDs accessResults"
    then obtain obj records where mem: "(obj, records) \<in> set accessResults"
      and p: "p \<in> set (map fst records)"
      by (auto simp add: bodyPropertyIDs_def)
    from assms have "distinct (map fst (rev accessResults))"
      by (simp add: rev_map [symmetric])
    with mem have "map_of (rev accessResults) obj = Some records"
      by (intro map_of_is_SomeI) simp_all
    then have "resultsOf accessResults obj = Some (propertiesOf records)"
      by (simp add: resultsOf_lookup lastAccessResult_def)
    then have "propertiesOf records \<in> ran (resultsOf accessResults)"
      by (rule ranI)
    moreover from p have "p \<in> dom (propertiesOf records)"
      by (simp add: dom_propertiesOf)
    ultimately show "p \<in> resultPropertyIDs (resultsOf accessResults)"
      unfolding resultPropertyIDs_def by blast
  qed
qed

text \<open>
  C2 (as stated). A ReadPropertyMultiple ACK in which the object (AnalogInput, 3)
  occurs in two read-access-results, the first with property 85 and the second with
  property 77, is accepted; the returned map has one entry, holding property 77 only,
  so the union of its property sets is not the set of property identifiers of the
  body.
\<close>

theorem duplicate_object_loses_properties:
  "parseReadPropertyMultipleResponse
     [0x81, 0x0A, 0x00, 0x23, 0x01, 0x00, 0x30, 0x01, 0x0E,
      0x0C, 0x00, 0x00, 0x00, 0x03, 0x1E, 0x29, 0x55, 0x4E, 0x21, 0x01, 0x4F, 0x1F,
      0x0C, 0x00, 0x00, 0x00, 0x03, 0x1E, 0x29, 0x4D, 0x4E, 0x21, 0x02, 0x4F, 0x1F] 1
     = Inr [\<lparr>Type = 0, Instance = 3\<rparr> \<mapsto> [77 \<mapsto> VUint32 2]]
   \<and> readAccessResults
     [0x81, 0x0A, 0x00, 0x23, 0x01, 0x00, 0x30, 0x01, 0x0E,
      0x0C, 0x00, 0x00, 0x00, 0x03, 0x1E, 0x29, 0x55, 0x4E, 0x21, 0x01, 0x4F, 0x1F,
      0x0C, 0x00, 0x00, 0x00, 0x03, 0x1E, 0x29, 0x4D, 0x4E, 0x21, 0x02, 0x4F, 0x1F]
     = Inr [(\<lparr>Type = 0, Instance = 3\<rparr>, [(85, VUint32 1)]),
            (\<lparr>Type = 0, Instance = 3\<rparr>, [(77, VUint32 2)])]
   \<and> resultPropertyIDs [\<lparr>Type = 0, Instance = 3\<rparr> \<mapsto> [77 \<mapsto> VUint32 2]] = {77}
   \<and> bodyPropertyIDs [(\<lparr>Type = 0, Instance = 3\<rparr>, [(85, VUint32 1)]),
                       (\<lparr>Type = 0, Instance = 3\<rparr>, [(77, VUint32 2)])] = {85, 77}
   \<and> resultPropertyIDs [\<lparr>Type = 0, Instance = 3\<rparr> \<mapsto> [77 \<mapsto> VUint32 2]]
       \<noteq> bodyPropertyIDs [(\<lparr>Type = 0, Instance = 3\<rparr>, [(85, VUint32 1)]),
                            (\<lparr>Type = 0, Instance = 3\<rparr>, [(77, VUint32 2)])]"
proof -
  have a: "parseReadPropertyMultipleResponse
     [0x81, 0x0A, 0x00, 0x23, 0x01, 0x00, 0x30, 0x01, 0x0E,
      0x0C, 0x00, 0x00, 0x00, 0x03, 0x1E, 0x29, 0x55, 0x4E, 0x21, 0x01, 0x4F, 0x1F,
      0x0C, 0x00, 0x00, 0x00, 0x03, 0x1E, 0x29, 0x4D, 0x4E, 0x21, 0x02, 0x4F, 0x1F] 1
     = Inr [\<lparr>Type = 0, Instance = 3\<rparr> \<mapsto> [77 \<mapsto> VUint32 2]]"
    by (simp add: parseReadPropertyMultipleResponse_def readPropertyMultipleAckHeader_def
        loop_eval reader_eval bacnet_consts cong: bindE_weak_cong)
  have b: "readAccessResults
     [0x81, 0x0A, 0x00, 0x23, 0x01, 0x00, 0x30, 0x01, 0x0E,
      0x0C, 0x00, 0x00, 0x00, 0x03, 0x1E, 0x29, 0x55, 0x4E, 0x21, 0x01, 0x4F, 0x1F,
      0x0C, 0x00, 0x00, 0x00, 0x03, 0x1E, 0x29, 0x4D, 0x4E, 0x21, 0x02, 0x4F, 0x1F]
     = Inr [(\<lparr>Type = 0, Instance = 3\<rparr>, [(85, VUint32 1)]),
            (\<lparr>Type = 0, Instance = 3\<rparr>, [(77, VUint32 2)])]"
    by (simp add: readAccessResults_def loop_eval reader_eval cong: bindE_weak_cong)
  have c: "resultPropertyIDs [\<lparr>Type = 0, Instance = 3\<rparr> \<mapsto> [77 \<mapsto> VUint32 2]] = {77}"
    by (simp add: resultPropertyIDs_def)
  have d: "bodyPropertyIDs [(\<lparr>Type = 0, Instance = 3\<rparr>, [(85, VUint32 1)]),
                       (\<lparr>Type = 0, Instance = 3\<rparr>, [(77, VUint32 2)])] = {85, 77}"
    by (auto simp add: bodyPropertyIDs_def)
  have e: "{77 :: uint32} \<noteq> {85, 77}" by auto
  show ?thesis unfolding c d by (intro conjI a b refl e)
qed

text \<open>
  C2 (amended). Whenever \<open>parseReadPropertyMultipleResponse\<close> accepts a datagram, its
  body is a list of read-access-results and the returned map has exactly one entry per
  distinct object identifier of the body; the entry of an object holds the property
  identifiers of the last read-access-result of that object; the union of the property
  sets of the map is contained in the set of property identifiers of the body, and
  equals it when no object identifier occurs in more than one read-access-result.
\<close>

theorem parseReadPropertyMultipleResponse_entries:
  assumes "parseReadPropertyMultipleResponse data expectedInvokeID = Inr res"
  shows "\<exists>accessResults.
           readAccessResults data = Inr accessResults
           \<and> dom res = bodyObjects accessResults
           \<and> (\<forall>obj. map_option dom (res obj)
                  = map_option (\<lambda>records. set (map fst records))
                      (lastAccessResult accessResults obj))
           \<and> resultPropertyIDs res \<subseteq> bodyPropertyIDs accessResults
           \<and> (distinct (map fst accessResults) \<longrightarrow>
                  resultPropertyIDs res = bodyPropertyIDs accessResults)"
proof -
  from parseReadPropertyMultipleResponse_refine [OF assms] obtain accessResults where
    b: "readAccessResults data = Inr accessResults" and r: "res = resultsOf accessResults"
    by blast
  have l: "map_option dom (res obj)
             = map_option (\<lambda>records. set (map fst records)) (lastAccessResult accessResults obj)"
    for obj
    unfolding r resultsOf_lookup
    by (cases "lastAccessResult accessResults obj") (simp_all add: dom_propertiesOf)
  from b r l show ?thesis
    using dom_resultsOf [of accessResults] resultPropertyIDs_subset [of accessResults]
      resultPropertyIDs_distinct [of accessResults]
    by blast
qed

theorem parseReadPropertyMultipleResponse_entries_witness:
  "parseReadPropertyMultipleResponse
     [0x81, 0x0A, 0x00, 0x23, 0x01, 0x00, 0x30, 0x01, 0x0E,
      0x0C, 0x00, 0x00, 0x00, 0x03, 0x1E, 0x29, 0x55, 0x4E, 0x21, 0x01, 0x4F, 0x1F,
      0x0C, 0x00, 0x00, 0x00, 0x04, 0x1E, 0x29, 0x4D, 0x4E, 0x21, 0x02, 0x4F, 0x1F] 1
     = Inr [\<lparr>Type = 0, Instance = 3\<rparr> \<mapsto> [85 \<mapsto> VUint32 1],
            \<lparr>Type = 0, Instance = 4\<rparr> \<mapsto> [77 \<mapsto> VUint32 2]]
   \<and> (\<exists>accessResults.
         readAccessResults
           [0x81, 0x0A, 0x00, 0x23, 0x01, 0x00, 0x30, 0x01, 0x0E,
            0x0C, 0x00, 0x00, 0x00, 0x03, 0x1E, 0x29, 0x55, 0x4E, 0x21, 0x01, 0x4F, 0x1F,
            0x0C, 0x00, 0x00, 0x00, 0x04, 0x1E, 0x29, 0x4D, 0x4E, 0x21, 0x02, 0x4F, 0x1F]
           = Inr accessResults
         \<and> dom [\<lparr>Type = 0, Instance = 3\<rparr> \<mapsto> [(85 :: uint32) \<mapsto> VUint32 1],
                 \<lparr>Type = 0, Instance = 4\<rparr> \<mapsto> [77 \<mapsto> VUint32 2]]
             = bodyObjects accessResults)"
proof -
  have a: "parseReadPropertyMultipleResponse
     [0x81, 0x0A, 0x00, 0x23, 0x01, 0x00, 0x30, 0x01, 0x0E,
      0x0C, 0x00, 0x00, 0x00, 0x03, 0x1E, 0x29, 0x55, 0x4E, 0x21, 0x01, 0x4F, 0x1F,
      0x0C, 0x00, 0x00, 0x00, 0x04, 0x1E, 0x29, 0x4D, 0x4E, 0x21, 0x02, 0x4F, 0x1F] 1
     = Inr [\<lparr>Type = 0, Instance = 3\<rparr> \<mapsto> [85 \<mapsto> VUint32 1],
            \<lparr>Type = 0, Instance = 4\<rparr> \<mapsto> [77 \<mapsto> VUint32 2]]"
    by (simp add: parseReadPropertyMultipleResponse_def readPropertyMultipleAckHeader_def
        loop_eval reader_eval bacnet_consts cong: bindE_weak_cong)
  from parseReadPropertyMultipleResponse_entries [OF a] obtain accessResults where
    "readAccessResults
       [0x81, 0x0A, 0x00, 0x23, 0x01, 0x00, 0x30, 0x01, 0x0E,
        0x0C, 0x00, 0x00, 0x00, 0x03, 0x1E, 0x29, 0x55, 0x4E, 0x21, 0x01, 0x4F, 0x1F,
        0x0C, 0x00, 0x00, 0x00, 0x04, 0x1E, 0x29, 0x4D, 0x4E, 0x21, 0x02, 0x4F, 0x1F]
       = Inr accessResults
     \<and> dom [\<lparr>Type = 0, Instance = 3\<rparr> \<mapsto> [(85 :: uint32) \<mapsto> VUint32 1],
             \<lparr>Type = 0, Instance = 4\<rparr> \<mapsto> [77 \<mapsto> VUint32 2]]
         = bodyObjects accessResults"
    by (elim exE conjE) (rule that, rule conjI)
  then have "\<exists>accessResults.
      readAccessResults
        [0x81, 0x0A, 0x00, 0x23, 0x01, 0x00, 0x30, 0x01, 0x0E,
         0x0C, 0x00, 0x00, 0x00, 0x03, 0x1E, 0x29, 0x55, 0x4E, 0x21, 0x01, 0x4F, 0x1F,
         0x0C, 0x00, 0x00, 0x00, 0x04, 0x1E, 0x29, 0x4D, 0x4E, 0x21, 0x02, 0x4F, 0x1F]
        = Inr accessResults
      \<and> dom [\<lparr>Type = 0, Instance = 3\<rparr> \<mapsto> [(85 :: uint32) \<mapsto> VUint32 1],
              \<lparr>Type = 0, Instance = 4\<rparr> \<mapsto> [77 \<mapsto> VUint32 2]]
          = bodyObjects accessResults" ..
  with a show ?thesis by (rule conjI)
qed

section \<open>The re-subscription interval\<close>

lemma float64_0_8_nearest:
  "5 * float64_0_8 = 4 * 2 ^ 53 + 2 \<and> 2 ^ 52 \<le> float64_0_8 \<and> float64_0_8 < 2 ^ 53"
  by (simp add: float64_0_8_def)

lemma whole_seconds_0:
  "list_all (\<lambda>n. round_to_float64 (n * float64_0_8) div 2 ^ 53 = 4 * n div 5) [0..<64]"
  apply (simp add: upt_conv_Cons)
  apply (simp add: round_to_float64_def float64_0_8_def bitlen.simps Let_def)
  done

lemma whole_seconds_1:
  "list_all (\<lambda>n. round_to_float64 (n * float64_0_8) div 2 ^ 53 = 4 * n div 5) [64..<128]"
  apply (simp add: upt_conv_Cons)
  apply (simp add: round_to_float64_def float64_0_8_def bitlen.simps Let_def)
  done

lemma whole_seconds_2:
  "list_all (\<lambda>n. round_to_float64 (n * float64_0_8) div 2 ^ 53 = 4 * n div 5) [128..<192]"
  apply (simp add: upt_conv_Cons)
  apply (simp add: round_to_float64_def float64_0_8_def bitlen.simps Let_def)
  done

lemma whole_seconds_3:
  "list_all (\<lambda>n. round_to_float64 (n * float64_0_8) div 2 ^ 53 = 4 * n div 5) [192..<256]"
  apply (simp add: upt_conv_Cons)
  apply (simp add: round_to_float64_def float64_0_8_def bitlen.simps Let_def)
  done

lemma whole_seconds:
  assumes "n < 256"
  shows "round_to_float64 (n * float64_0_8) div 2 ^ 53 = 4 * n div 5"
proof -
  have mem: "n \<in> set [a..<b]" if "a \<le> n" and "n < b" for a b
    using that by simp
  from assms consider "n < 64" | "64 \<le> n" "n < 128" | "128 \<le> n" "n < 192"
    | "192 \<le> n" "n < 256"
    by linarith
  then show ?thesis
  proof cases
    case 1
    then have "n \<in> set [0..<64]" by (intro mem) simp_all
    with whole_seconds_0 show ?thesis unfolding list_all_iff by (rule bspec)
  next
    case 2
    then have "n \<in> set [64..<128]" by (intro mem)
    with whole_seconds_1 show ?thesis unfolding list_all_iff by (rule bspec)
  next
    case 3
    then have "n \<in> set [128..<192]" by (intro mem)
    with whole_seconds_2 show ?thesis unfolding list_all_iff by (rule bspec)
  next
    case 4
    then have "n \<in> set [192..<256]" by (intro mem)
    with whole_seconds_3 show ?thesis unfolding list_all_iff by (rule bspec)
  qed
qed

text \<open>
  C3 (as stated). For lifetime 2 the interval is one second, not
  \<open>max(1 s, 0.8 * 2 s) = 1.6 s\<close>: the product \<open>1.6\<close> is truncated to a whole
  number of seconds before it is multiplied by \<open>time.Second\<close>.
\<close>

theorem reSubscribeInterval_lifetime_2:
  "reSubscribeInterval 2 = 1000000000
   \<and> reSubscribeInterval 2 \<noteq> max (1 * Second) (8 * uint (2 :: byte) * (Second div 10))"
  by (simp add: reSubscribeInterval_def round_to_float64_def float64_0_8_def bitlen.simps
      Let_def Second_def)

text \<open>
  C3 (amended). For every lifetime in 0..255 the interval is
  \<open>max(1 second, floor(0.8 * lifetime) seconds)\<close>, a whole number of seconds; lifetime
  0 yields exactly one second and lifetime 60 yields 48 seconds.
\<close>

theorem reSubscribeInterval_whole_seconds:
  "reSubscribeInterval lifetime = max (1 * Second) (int (4 * unat lifetime div 5) * Second)
   \<and> reSubscribeInterval 0 = 1 * Second
   \<and> reSubscribeInterval 60 = 48 * Second"
proof -
  have n: "unat lifetime < 256"
    using unsigned_less [of lifetime, where 'a = nat] by simp
  have a: "reSubscribeInterval lifetime
             = max (1 * Second) (int (4 * unat lifetime div 5) * Second)"
    unfolding reSubscribeInterval_def Let_def whole_seconds [OF n]
    by (simp add: Second_def max_def)
  have b: "reSubscribeInterval 0 = 1 * Second"
    by (simp add: reSubscribeInterval_def round_to_float64_def float64_0_8_def bitlen.simps
        Let_def Second_def)
  have c: "reSubscribeInterval 60 = 48 * Second"
    by (simp add: reSubscribeInterval_def round_to_float64_def float64_0_8_def bitlen.simps
        Let_def Second_def)
  from a b c show ?thesis by blast
qed

end
